theory Spec2Isabelle
  imports Complex_Main
begin

section \<open>Geometry: the parts of three.js the game relies on\<close>

text \<open>
  The game delegates vectors and axis-aligned boxes to the three.js library.  Its numbers
  are JavaScript numbers; they are modelled as exact reals, extended with the two
  infinities that \<^verbatim>\<open>Box3.makeEmpty\<close> stores.  Rounding and NaN are outside the model.
  Positions of the camera are finite.
\<close>

datatype num = NegInfinity | Num real | Infinity

text \<open>JavaScript \<^verbatim>\<open>a <= b\<close> and \<^verbatim>\<open>a >= b\<close> on such numbers.\<close>

fun num_le :: "num \<Rightarrow> num \<Rightarrow> bool" where
  "num_le NegInfinity _ = True"
| "num_le (Num a) NegInfinity = False"
| "num_le (Num a) (Num b) = (a \<le> b)"
| "num_le (Num a) Infinity = True"
| "num_le Infinity Infinity = True"
| "num_le Infinity _ = False"

definition num_ge :: "num \<Rightarrow> num \<Rightarrow> bool" where
  "num_ge a b = num_le b a"

record vec3 =
  vx :: real
  vy :: real
  vz :: real

definition V3 :: "real \<Rightarrow> real \<Rightarrow> real \<Rightarrow> vec3" where
  "V3 x y z = \<lparr>vx = x, vy = y, vz = z\<rparr>"

record box3 =
  minx :: num
  miny :: num
  minz :: num
  maxx :: num
  maxy :: num
  maxz :: num

text \<open>\<^verbatim>\<open>Box3.setFromCenterAndSize(center, size)\<close>: min = center - size/2, max = center + size/2.\<close>

definition setFromCenterAndSize :: "vec3 \<Rightarrow> vec3 \<Rightarrow> box3" where
  "setFromCenterAndSize center sz =
     \<lparr>minx = Num (vx center - vx sz * 0.5), miny = Num (vy center - vy sz * 0.5),
      minz = Num (vz center - vz sz * 0.5),
      maxx = Num (vx center + vx sz * 0.5), maxy = Num (vy center + vy sz * 0.5),
      maxz = Num (vz center + vz sz * 0.5)\<rparr>"

text \<open>\<^verbatim>\<open>Box3.makeEmpty()\<close>: min = +Infinity, max = -Infinity on every axis.\<close>

definition makeEmpty :: "box3" where
  "makeEmpty =
     \<lparr>minx = Infinity, miny = Infinity, minz = Infinity,
      maxx = NegInfinity, maxy = NegInfinity, maxz = NegInfinity\<rparr>"

text \<open>\<^verbatim>\<open>this.intersectsBox(box)\<close>: the six separating-plane tests.\<close>

definition intersectsBox :: "box3 \<Rightarrow> box3 \<Rightarrow> bool" where
  "intersectsBox this box \<longleftrightarrow>
     num_ge (maxx box) (minx this) \<and> num_le (minx box) (maxx this) \<and>
     num_ge (maxy box) (miny this) \<and> num_le (miny box) (maxy this) \<and>
     num_ge (maxz box) (minz this) \<and> num_le (minz box) (maxz this)"

text \<open>\<^verbatim>\<open>this.containsPoint(p)\<close>.\<close>

definition containsPoint :: "box3 \<Rightarrow> vec3 \<Rightarrow> bool" where
  "containsPoint this p \<longleftrightarrow>
     num_ge (Num (vx p)) (minx this) \<and> num_le (Num (vx p)) (maxx this) \<and>
     num_ge (Num (vy p)) (miny this) \<and> num_le (Num (vy p)) (maxy this) \<and>
     num_ge (Num (vz p)) (minz this) \<and> num_le (Num (vz p)) (maxz this)"

text \<open>\<^verbatim>\<open>a.distanceTo(b)\<close>.\<close>

definition distanceTo :: "vec3 \<Rightarrow> vec3 \<Rightarrow> real" where
  "distanceTo a b = sqrt ((vx a - vx b)\<^sup>2 + (vy a - vy b)\<^sup>2 + (vz a - vz b)\<^sup>2)"

section \<open>Collision\<close>

text \<open>
  \<^verbatim>\<open>const playerSize = new THREE.Vector3(0.5, 1.7, 0.5)\<close>; \<^verbatim>\<open>checkCollision(newPos)\<close>
  centres the player box on the position and walks the list of wall boxes, returning at the
  first one that intersects.
\<close>

definition playerSize :: vec3 where
  "playerSize = V3 0.5 1.7 0.5"

definition playerBox :: "vec3 \<Rightarrow> box3" where
  "playerBox newPos = setFromCenterAndSize newPos playerSize"

primrec checkCollision_loop :: "box3 \<Rightarrow> box3 list \<Rightarrow> bool" where
  "checkCollision_loop pb [] = False"
| "checkCollision_loop pb (box # rest) =
     (if intersectsBox pb box then True else checkCollision_loop pb rest)"

definition checkCollision :: "box3 list \<Rightarrow> vec3 \<Rightarrow> bool" where
  "checkCollision wallBoxes newPos = checkCollision_loop (playerBox newPos) wallBoxes"

text \<open>
  \<^verbatim>\<open>wallBoxes[idx].makeEmpty()\<close>.  An index outside the array (or an undefined one) reads
  \<^verbatim>\<open>undefined\<close> and the call raises a TypeError: the result is \<open>None\<close>.
\<close>

definition retract :: "nat option \<Rightarrow> box3 list \<Rightarrow> box3 list option" where
  "retract idx wallBoxes =
     (case idx of
        None \<Rightarrow> None
      | Some i \<Rightarrow> if i < length wallBoxes then Some (wallBoxes[i := makeEmpty]) else None)"

section \<open>Interactables, cues and the session state\<close>

text \<open>
  The type tag of an interactable's \<^verbatim>\<open>userData\<close>, as the dispatcher compares it.
\<close>

datatype kind =
    Note | Terminal | Vhs | Door | Final_terminal | Keycard | Valve | Hatch
  | Keycard_10 | Escape_door | Locked_door

text \<open>
  The \<^verbatim>\<open>userData\<close> bag of an interactable mesh, with the fields the dispatcher and the
  transitions read or write.  \<open>meshVisible\<close> is \<^verbatim>\<open>obj.visible\<close>; \<open>indicGreen\<close> records that the
  indicator material was set to \<^verbatim>\<open>0x00ff00\<close>; \<open>hatchGlowOn\<close> that the hatch glow and panel
  were switched to green.  A collider index that the level builder did not store is
  \<open>None\<close> (\<^verbatim>\<open>undefined\<close>).  Mesh handles and display payloads are opaque and left out.
\<close>

record userData =
  utype :: kind
  interactable :: bool
  meshVisible :: bool
  opened :: bool
  turned :: bool
  indicGreen :: bool
  hatchGlowOn :: bool
  doorColliderLeft :: "nat option"
  doorColliderRight :: "nat option"
  doorColliderIdx :: "nat option"

text \<open>
  Audio cues (\<^verbatim>\<open>audioManager.play...\<close>) and hint texts (\<^verbatim>\<open>showHint(...)\<close>), by name.
  \<open>PlayTone\<close> is \<^verbatim>\<open>_playTone(frequency, duration, volume)\<close>; \<open>DistantFootsteps\<close> stands for the
  four low tones that a random scare spreads over 1.2 s.
\<close>

datatype cue =
    PlayClick | PlayTerminal | PlayStatic | PlayDoorSlam | PlayScare | PlayWhisper
  | PlayHeartbeat | PlayAlarm | PlayBassBoom | PlayTone real real real
  | DistantFootsteps | StartAmbience | StopAll

datatype hint =
    Hint_LegacyHQ                \<comment> \<open>'Legacy HQ -- Ottawa, Canada ...'\<close>
  | Hint_KeycardAcquired         \<comment> \<open>'Level 5 Access Card acquired'\<close>
  | Hint_ValveActivated nat      \<comment> \<open>'Valve n/3 activated'\<close>
  | Hint_PowerRestored           \<comment> \<open>'POWER RESTORED -- Exit unsealed'\<close>
  | Hint_HatchSealed             \<comment> \<open>'The hatch is sealed shut'\<close>
  | Hint_Descend                 \<comment> \<open>'You descend into the cooling tunnels...'\<close>
  | Hint_Keycard10Acquired       \<comment> \<open>'Level 10 Emergency Keycard acquired'\<close>
  | Hint_LockedLevel10           \<comment> \<open>'LOCKED -- Level 10 clearance required'\<close>
  | Hint_GrantedRoof             \<comment> \<open>'ACCESS GRANTED -- Get to the roof!'\<close>
  | Hint_EmergeRooftop           \<comment> \<open>'You emerge onto the rooftop...'\<close>
  | Hint_LockedNeedCard          \<comment> \<open>'LOCKED -- You need a security access card'\<close>
  | Hint_AccessGranted           \<comment> \<open>'ACCESS GRANTED'\<close>
  | Hint_DarknessDeepens         \<comment> \<open>'The darkness deepens ahead...'\<close>
  | Hint_HallwayStretches        \<comment> \<open>'The hallway stretches into darkness...'\<close>
  | Hint_SystemBoot              \<comment> \<open>'SYSTEM BOOT DETECTED...'\<close>
  | Hint_Unauthorized            \<comment> \<open>'WARNING: UNAUTHORIZED SYSTEM ACCESS'\<close>
  | Hint_Lockdown                \<comment> \<open>'EMERGENCY LOCKDOWN INITIATED'\<close>
  | Hint_HatchUnlocked           \<comment> \<open>'Maintenance hatch unlocked -- find it!'\<close>
  | Hint_FindWayOut              \<comment> \<open>'Find a way out!'\<close>

text \<open>
  What the session did that is visible outside it, in order: cues, hints, modal notes,
  screen effects, and two call records: \<open>TriggerEvent id\<close> for a call of
  \<^verbatim>\<open>HorrorEvents._triggerEvent\<close> on the zone with that id, and \<open>Cinematic site\<close> for a call of
  \<^verbatim>\<open>triggerChapter2Cinematic\<close> from the given call site.
\<close>

datatype callsite = FromCloseNote | FromRooftopZone

datatype effect =
    Cue cue
  | Hint hint
  | NoteOpened
  | ScreenShake
  | ScreenFlash
  | Blackout bool
  | TriggerEvent string
  | Cinematic callsite

text \<open>
  Deferred callbacks: the \<^verbatim>\<open>setTimeout\<close> bodies and the \<^verbatim>\<open>requestAnimationFrame\<close> loops of
  the source.  A timeout carries what its closure captured; an animation carries the object
  and its \<^verbatim>\<open>startTime\<close>.  Timers that only touch the page (hint fade, typewriter, flicker
  interval, screen-shake and flash removal) are left out.
\<close>

datatype task =
    ValveExitTimeout             \<comment> \<open>valve branch, 1500 ms\<close>
  | AnimExit nat                 \<comment> \<open>\<^verbatim>\<open>animExit\<close>, started at\<close>
  | EscapeTimeout nat            \<comment> \<open>escape door, 1000 ms, object\<close>
  | EscapeTeleport               \<comment> \<open>escape door, 500 ms later\<close>
  | SecDoorTimeout nat           \<comment> \<open>\<^verbatim>\<open>openSecurityDoor\<close>, 1500 ms, object\<close>
  | AnimSec nat nat              \<comment> \<open>\<^verbatim>\<open>animSec\<close>, object, started at\<close>
  | AnimDoor nat nat             \<comment> \<open>\<^verbatim>\<open>animDoor\<close>, object, started at\<close>
  | CinStep2 | CinStep3 | CinStep4 | CinStep5 | CinStep6 | CinStep7

section \<open>HorrorEvents\<close>

datatype scare =
  Lights_out | Shadow_figure | Door_slam | Whisper | Heartbeat | Tv_scare | Final_scare

record zone_event =
  ev_id :: string
  ev_zone :: vec3
  ev_radius :: real
  ev_type :: scare

text \<open>\<^verbatim>\<open>this.events\<close> of the constructor.\<close>

definition events :: "zone_event list" where
  "events =
    [\<lparr>ev_id = ''lobby_enter'', ev_zone = V3 0 1.7 8, ev_radius = 4, ev_type = Lights_out\<rparr>,
     \<lparr>ev_id = ''hall_midpoint'', ev_zone = V3 0 1.7 (-3), ev_radius = 3, ev_type = Shadow_figure\<rparr>,
     \<lparr>ev_id = ''office_enter'', ev_zone = V3 (-6) 1.7 (-3), ev_radius = 3, ev_type = Door_slam\<rparr>,
     \<lparr>ev_id = ''server_approach'', ev_zone = V3 5 1.7 (-5), ev_radius = 3, ev_type = Whisper\<rparr>,
     \<lparr>ev_id = ''server_deep'', ev_zone = V3 9 1.7 (-9), ev_radius = 3, ev_type = Heartbeat\<rparr>,
     \<lparr>ev_id = ''break_room'', ev_zone = V3 (-12) 1.7 (-19), ev_radius = 4, ev_type = Tv_scare\<rparr>,
     \<lparr>ev_id = ''basement_enter'', ev_zone = V3 12 1.7 (-16), ev_radius = 3, ev_type = Lights_out\<rparr>,
     \<lparr>ev_id = ''basement_deep'', ev_zone = V3 12 1.7 (-24), ev_radius = 3, ev_type = Final_scare\<rparr>]"

definition whisperZone :: vec3 where
  "whisperZone = V3 9 1.7 (-5)"

text \<open>
  The fields of a \<^verbatim>\<open>HorrorEvents\<close> instance that \<^verbatim>\<open>update\<close> reads or writes; \<open>h_triggered\<close>
  is the \<^verbatim>\<open>triggered\<close> set of ids.  The position of the shadow figure is left out.
\<close>

record horror =
  h_triggered :: "string set"
  flickerOverride :: real
  scareTimer :: real
  nextScareTime :: real
  shadowVisible :: bool
  shadowOpacity :: real

text \<open>
  The values of \<^verbatim>\<open>Math.random()\<close> that one frame may draw, supplied by the environment:
  for \<^verbatim>\<open>HorrorEvents.update\<close> the next scare time, the scare roll and the whisper draw; for the
  entity the hide and appear durations and the heartbeat draw.
\<close>

record rnd =
  r_next :: real
  r_roll :: real
  r_whisper :: real
  r_hide :: real
  r_appear :: real
  r_beat :: real

text \<open>\<^verbatim>\<open>_triggerEvent(event)\<close> with the handlers it dispatches to.\<close>

fun triggerEvent :: "zone_event \<Rightarrow> horror \<times> effect list \<Rightarrow> horror \<times> effect list" where
  "triggerEvent e (h, tr) =
     (case ev_type e of
        Lights_out \<Rightarrow> (h\<lparr>flickerOverride := 3\<rparr>, tr @ [Cue PlayScare, ScreenFlash])
      | Shadow_figure \<Rightarrow>
          (h\<lparr>shadowVisible := True, shadowOpacity := 0.85\<rparr>, tr @ [Cue PlayScare])
      | Door_slam \<Rightarrow> (h, tr @ [Cue PlayDoorSlam, ScreenFlash])
      | Whisper \<Rightarrow> (h, tr @ [Cue PlayWhisper])
      | Heartbeat \<Rightarrow> (h, tr @ [Cue PlayHeartbeat])
      | Tv_scare \<Rightarrow> (h, tr @ [Cue PlayStatic, Cue PlayScare, ScreenFlash])
      | Final_scare \<Rightarrow>
          (h\<lparr>shadowVisible := True, shadowOpacity := 1\<rparr>,
           tr @ [Cue PlayScare, Cue PlayHeartbeat, ScreenFlash]))"

text \<open>
  The zone loop of \<^verbatim>\<open>update\<close>: an event whose id is in the set is skipped; otherwise, when
  the player is closer to the zone than its radius, the id is added and the event fires.
\<close>

fun zone_loop :: "zone_event list \<Rightarrow> vec3 \<Rightarrow> horror \<times> effect list \<Rightarrow> horror \<times> effect list" where
  "zone_loop [] playerPos hs = hs"
| "zone_loop (e # es) playerPos (h, tr) =
     (if ev_id e \<in> h_triggered h then zone_loop es playerPos (h, tr)
      else if distanceTo playerPos (ev_zone e) < ev_radius e
      then zone_loop es playerPos
             (triggerEvent e (h\<lparr>h_triggered := insert (ev_id e) (h_triggered h)\<rparr>,
                              tr @ [TriggerEvent (ev_id e)]))
      else zone_loop es playerPos (h, tr))"

definition randomScare :: "real \<Rightarrow> effect list" where
  "randomScare roll =
     (if roll < 0.3 then [Cue PlayWhisper]
      else if roll < 0.5 then [Cue PlayDoorSlam]
      else if roll < 0.7 then [Cue DistantFootsteps]
      else [Cue PlayHeartbeat])"

definition horror_update ::
  "real \<Rightarrow> vec3 \<Rightarrow> rnd \<Rightarrow> horror \<times> effect list \<Rightarrow> horror \<times> effect list" where
  "horror_update delta playerPos r hs =
     (let (h1, tr1) = zone_loop events playerPos hs;
          h2 = h1\<lparr>scareTimer := scareTimer h1 + delta\<rparr>;
          (h3, tr3) =
            (if scareTimer h2 > nextScareTime h2
             then (h2\<lparr>scareTimer := 0, nextScareTime := 20 + r_next r * 30\<rparr>,
                   tr1 @ randomScare (r_roll r))
             else (h2, tr1));
          tr4 = (if distanceTo playerPos whisperZone < 8 \<and> r_whisper r < 0.002
                 then tr3 @ [Cue PlayWhisper] else tr3);
          h5 = (if flickerOverride h3 > 0
                then h3\<lparr>flickerOverride := flickerOverride h3 - delta\<rparr> else h3);
          h6 = (if shadowVisible h5
                then (let h = h5\<lparr>shadowOpacity := shadowOpacity h5 - delta * 0.5\<rparr>
                      in if shadowOpacity h \<le> 0 then h\<lparr>shadowVisible := False\<rparr> else h)
                else h5)
      in (h6, tr4))"

section \<open>Entity\<close>

record entityState =
  active :: bool
  activateTime :: real
  e_position :: vec3
  currentTarget :: nat
  chasing :: bool
  glitchTimer :: real
  visibleTimer :: real
  appearsFor :: real
  hideFor :: real
  isShowing :: bool

definition patrolPoints :: "vec3 list" where
  "patrolPoints =
     [V3 9 0 (-8), V3 0 0 (-5), V3 (-9) 0 (-5), V3 0 0 (-12), V3 12 0 (-21), V3 (-12) 0 (-19)]"

text \<open>\<^verbatim>\<open>new Vector3().subVectors(a, b).normalize()\<close>: divides by \<^verbatim>\<open>length() || 1\<close>.\<close>

definition subNormalize :: "vec3 \<Rightarrow> vec3 \<Rightarrow> vec3" where
  "subNormalize a b =
     (let d = V3 (vx a - vx b) (vy a - vy b) (vz a - vz b);
          l = distanceTo a b;
          k = (if l = 0 then 1 else l)
      in V3 (vx d / k) (vy d / k) (vz d / k))"

definition addScaled :: "vec3 \<Rightarrow> vec3 \<Rightarrow> real \<Rightarrow> vec3" where
  "addScaled p d k = V3 (vx p + vx d * k) (vy p + vy d * k) (vz p + vz d * k)"

text \<open>\<^verbatim>\<open>patrolPoints.reduce((best, pt) => pt nearer than best ? pt : best)\<close>.\<close>

definition closestPatrolPoint :: "vec3 \<Rightarrow> vec3" where
  "closestPatrolPoint playerPos =
     foldl (\<lambda>best pt. if distanceTo pt playerPos < distanceTo best playerPos then pt else best)
       (hd patrolPoints) (tl patrolPoints)"

text \<open>
  \<^verbatim>\<open>update(delta, elapsed, playerPos)\<close> of the object returned by \<^verbatim>\<open>createEntity\<close>, in the
  order of the source; the mesh pose and the glitch animation are left out.  First the
  activation: on the first update past the countdown the entity becomes active, with a
  whisper.
\<close>

definition entity_wake :: "entityState \<times> effect list \<Rightarrow> entityState \<times> effect list" where
  "entity_wake es =
     (if \<not> active (fst es) then ((fst es)\<lparr>active := True\<rparr>, snd es @ [Cue PlayWhisper]) else es)"

text \<open>The visibility cycle: the timer advances, and a window that has run out is swapped.\<close>

definition entity_cycle ::
  "real \<Rightarrow> vec3 \<Rightarrow> rnd \<Rightarrow> entityState \<times> effect list \<Rightarrow> entityState \<times> effect list" where
  "entity_cycle delta playerPos r es =
     (let e = (fst es)\<lparr>visibleTimer := visibleTimer (fst es) + delta\<rparr>; tr = snd es
      in if isShowing e
         then (if visibleTimer e > appearsFor e
               then (e\<lparr>isShowing := False, visibleTimer := 0, hideFor := 10 + r_hide r * 20\<rparr>, tr)
               else (e, tr))
         else (if visibleTimer e > hideFor e
               then (e\<lparr>isShowing := True, visibleTimer := 0, appearsFor := 3 + r_appear r * 5,
                       e_position := closestPatrolPoint playerPos\<rparr>,
                     tr @ [Cue PlayScare])
               else (e, tr)))"

text \<open>
  The waypoint index advances when the entity is within 1 of its target.  The index starts
  at 0 and is only ever set modulo the number of points, so it stays inside the list.
\<close>

definition entity_advance :: "entityState \<Rightarrow> entityState" where
  "entity_advance e =
     (if distanceTo (e_position e) (patrolPoints ! currentTarget e) < 1
      then e\<lparr>currentTarget := (currentTarget e + 1) mod length patrolPoints\<rparr> else e)"

text \<open>
  Chase within the detection range 6 at speed 4, with the scare on contact within 2;
  otherwise patrol along \<open>dir\<close> at speed 2.5.
\<close>

definition entity_steer ::
  "real \<Rightarrow> vec3 \<Rightarrow> rnd \<Rightarrow> vec3 \<Rightarrow> entityState \<times> effect list \<Rightarrow> entityState \<times> effect list" where
  "entity_steer delta playerPos r dir es =
     (let e = fst es; tr = snd es;
          playerDist = distanceTo (e_position e) playerPos;
          speed = (if playerDist < 6 then 4 else 2.5)
      in if playerDist < 6
         then (let c = e\<lparr>e_position :=
                           addScaled (e_position e)
                             (subNormalize playerPos (e_position e)) (speed * delta),
                         chasing := True\<rparr>
               in if playerDist < 2
                  then (c\<lparr>isShowing := False, visibleTimer := 0, hideFor := 20 + r_hide r * 15\<rparr>,
                        tr @ [Cue PlayScare, Cue PlayHeartbeat, ScreenFlash])
                  else (c, tr))
         else (e\<lparr>e_position := addScaled (e_position e) dir (speed * delta), chasing := False\<rparr>,
               tr))"

text \<open>The glitch timer, and the heartbeat drawn while the player is within 10.\<close>

definition entity_pulse ::
  "real \<Rightarrow> real \<Rightarrow> rnd \<Rightarrow> entityState \<times> effect list \<Rightarrow> entityState \<times> effect list" where
  "entity_pulse delta playerDist r es =
     ((fst es)\<lparr>glitchTimer := glitchTimer (fst es) + delta\<rparr>,
      if playerDist < 10 \<and> r_beat r < 0.005 then snd es @ [Cue PlayHeartbeat] else snd es)"

definition entity_move ::
  "real \<Rightarrow> vec3 \<Rightarrow> rnd \<Rightarrow> entityState \<times> effect list \<Rightarrow> entityState \<times> effect list" where
  "entity_move delta playerPos r es =
     (let dir = subNormalize (patrolPoints ! currentTarget (fst es)) (e_position (fst es));
          e1 = entity_advance (fst es);
          playerDist = distanceTo (e_position e1) playerPos
      in entity_pulse delta playerDist r (entity_steer delta playerPos r dir (e1, snd es)))"

definition entity_update ::
  "real \<Rightarrow> vec3 \<Rightarrow> rnd \<Rightarrow> entityState \<times> effect list \<Rightarrow> entityState \<times> effect list" where
  "entity_update delta playerPos r es =
     (let es1 = ((fst es)\<lparr>activateTime := activateTime (fst es) - delta\<rparr>, snd es)
      in if activateTime (fst es1) > 0 then es1
         else (let es2 = entity_cycle delta playerPos r (entity_wake es1)
               in if \<not> isShowing (fst es2) then es2
                  else entity_move delta playerPos r es2))"

section \<open>The session state\<close>

text \<open>
  The global \<^verbatim>\<open>state\<close> object together with the module-level variables of the game loop:
  \<open>position\<close> is \<^verbatim>\<open>camera.position\<close>, \<open>objs\<close> maps an interactable (by reference) to its
  \<^verbatim>\<open>userData\<close>, \<open>wallBoxes\<close> is the collider array, \<open>triggerZoneBox\<close> and \<open>triggered\<close> belong
  to the rooftop trigger zone, \<open>exitDoorColliderIdx\<close> and \<open>exitIndicGreen\<close> to
  \<^verbatim>\<open>state.tunnelData\<close>.  \<open>now\<close> is the clock in milliseconds, \<open>pending\<close> the callbacks
  registered and not yet run with the time from which each may run, \<open>trace\<close> the effects so
  far, and \<open>uncaught\<close> counts the TypeErrors that escaped a callback.  \<open>chapter_no\<close> is
  \<^verbatim>\<open>state.chapter\<close>.  Flags that the source leaves \<^verbatim>\<open>undefined\<close> until first set are
  \<open>False\<close>.
\<close>

record state =
  playing :: bool
  paused :: bool
  noteOpen :: bool
  flashlightOn :: bool
  battery :: real
  moveForward :: bool
  moveBackward :: bool
  moveLeft :: bool
  moveRight :: bool
  sprinting :: bool
  collectiblesFound :: nat
  chapter_no :: nat
  valvesTurned :: nat
  finalTerminalRead :: bool
  pendingCinematic :: bool
  hasKeycard :: bool
  hasKeycard10 :: bool
  position :: vec3
  bobTime :: real
  objs :: "nat \<Rightarrow> userData"
  wallBoxes :: "box3 list"
  hatchTrigger :: "nat option"
  exitDoorColliderIdx :: "nat option"
  exitIndicGreen :: bool
  triggerZoneBox :: box3
  triggered :: bool
  now :: nat
  pending :: "(nat \<times> task) list"
  trace :: "effect list"
  uncaught :: nat
  horrorEvents :: horror
  entitySystem :: "entityState option"

definition showHint :: "hint \<Rightarrow> state \<Rightarrow> state" where
  "showHint h s = s\<lparr>trace := trace s @ [Hint h]\<rparr>"

definition play :: "cue \<Rightarrow> state \<Rightarrow> state" where
  "play c s = s\<lparr>trace := trace s @ [Cue c]\<rparr>"

definition emit :: "effect \<Rightarrow> state \<Rightarrow> state" where
  "emit e s = s\<lparr>trace := trace s @ [e]\<rparr>"

definition setTimeout :: "task \<Rightarrow> nat \<Rightarrow> state \<Rightarrow> state" where
  "setTimeout f ms s = s\<lparr>pending := pending s @ [(now s + ms, f)]\<rparr>"

definition requestAnimationFrame :: "task \<Rightarrow> state \<Rightarrow> state" where
  "requestAnimationFrame f s = s\<lparr>pending := pending s @ [(now s, f)]\<rparr>"

definition updObj :: "nat \<Rightarrow> (userData \<Rightarrow> userData) \<Rightarrow> state \<Rightarrow> state" where
  "updObj obj f s = s\<lparr>objs := (objs s)(obj := f (objs s obj))\<rparr>"

definition throwTypeError :: "state \<Rightarrow> state" where
  "throwTypeError s = s\<lparr>uncaught := uncaught s + 1\<rparr>"

section \<open>Notes and the chapter-ending cinematic\<close>

definition openNote :: "state \<Rightarrow> state" where
  "openNote s = emit NoteOpened (s\<lparr>noteOpen := True\<rparr>)"

text \<open>
  \<^verbatim>\<open>triggerChapter2Cinematic()\<close>: step 1 runs at once, steps 2 to 7 are timeouts at 2, 4.5,
  5.5, 7.5, 12 and 14 seconds.  Light intensities and colours are left out.
\<close>

definition triggerChapter2Cinematic :: "callsite \<Rightarrow> state \<Rightarrow> state" where
  "triggerChapter2Cinematic site s =
     (setTimeout CinStep7 14000 \<circ> setTimeout CinStep6 12000 \<circ> setTimeout CinStep5 7500 \<circ>
      setTimeout CinStep4 5500 \<circ> setTimeout CinStep3 4500 \<circ> setTimeout CinStep2 2000 \<circ>
      showHint Hint_SystemBoot \<circ> play PlayTerminal \<circ> emit (Cinematic site))
       (s\<lparr>paused := True\<rparr>)"

definition closeNote :: "state \<Rightarrow> state" where
  "closeNote s =
     (let s1 = s\<lparr>noteOpen := False\<rparr>
      in if pendingCinematic s1 \<and> chapter_no s1 = 1
         then triggerChapter2Cinematic FromCloseNote (s1\<lparr>pendingCinematic := False\<rparr>)
         else s1)"

definition cinStep2 :: "state \<Rightarrow> state" where
  "cinStep2 s = showHint Hint_Unauthorized (play PlayAlarm s)"

definition cinStep3 :: "state \<Rightarrow> state" where
  "cinStep3 s = emit ScreenShake (play PlayBassBoom s)"

definition cinStep4 :: "state \<Rightarrow> state" where
  "cinStep4 s = emit (Blackout True) (play PlayScare (showHint Hint_Lockdown s))"

definition cinStep5 :: "state \<Rightarrow> state" where
  "cinStep5 s = play PlayHeartbeat (emit (Blackout False) s)"

text \<open>Step 6: \<^verbatim>\<open>if (state.hatchTrigger) { hd.interactable = true; ... }\<close>, a click, a hint.\<close>

definition cinStep6 :: "state \<Rightarrow> state" where
  "cinStep6 s =
     (let s1 = (case hatchTrigger s of
                  None \<Rightarrow> s
                | Some h \<Rightarrow> updObj h (\<lambda>u. u\<lparr>interactable := True, hatchGlowOn := True\<rparr>) s)
      in showHint Hint_HatchUnlocked (play PlayClick s1))"

definition cinStep7 :: "state \<Rightarrow> state" where
  "cinStep7 s = showHint Hint_FindWayOut (s\<lparr>paused := False\<rparr>)"

section \<open>Doors\<close>

text \<open>
  \<^verbatim>\<open>openDoor(doorData)\<close>.  The first call of \<^verbatim>\<open>animDoor\<close> is made at once, with no time
  elapsed, so it only requests the next frame.
\<close>

definition openDoor :: "nat \<Rightarrow> state \<Rightarrow> state" where
  "openDoor obj s =
     (if opened (objs s obj) then s
      else (let s1 = play PlayDoorSlam (updObj obj (\<lambda>u. u\<lparr>opened := True\<rparr>) s)
            in requestAnimationFrame (AnimDoor obj (now s1)) s1))"

text \<open>
  A frame of \<^verbatim>\<open>animDoor\<close>: while \<^verbatim>\<open>t < 1\<close> it requests another frame; at \<^verbatim>\<open>t = 1\<close> it
  empties both door colliders, unless \<^verbatim>\<open>doorColliderLeft\<close> is undefined, and shows a hint.
\<close>

definition animDoor :: "nat \<Rightarrow> nat \<Rightarrow> state \<Rightarrow> state" where
  "animDoor obj startTime s =
     (let elapsed = real (now s - startTime);
          t = min (elapsed / 2000) 1
      in if t < 1 then requestAnimationFrame (AnimDoor obj startTime) s
         else if doorColliderLeft (objs s obj) \<noteq> None
         then (case retract (doorColliderLeft (objs s obj)) (wallBoxes s) of
                 None \<Rightarrow> throwTypeError s
               | Some wb1 \<Rightarrow>
                  (case retract (doorColliderRight (objs s obj)) wb1 of
                     None \<Rightarrow> throwTypeError (s\<lparr>wallBoxes := wb1\<rparr>)
                   | Some wb2 \<Rightarrow> showHint Hint_HallwayStretches (s\<lparr>wallBoxes := wb2\<rparr>)))
         else showHint Hint_HallwayStretches s)"

definition openSecurityDoor :: "nat \<Rightarrow> state \<Rightarrow> state" where
  "openSecurityDoor obj s =
     (if opened (objs s obj) then s
      else setTimeout (SecDoorTimeout obj) 1500
             (showHint Hint_AccessGranted
               (play PlayTerminal
                 (updObj obj (\<lambda>u. u\<lparr>opened := True, indicGreen := True\<rparr>) s))))"

definition secDoorTimeout :: "nat \<Rightarrow> state \<Rightarrow> state" where
  "secDoorTimeout obj s =
     (let s1 = play PlayDoorSlam s in requestAnimationFrame (AnimSec obj (now s1)) s1)"

definition animSec :: "nat \<Rightarrow> nat \<Rightarrow> state \<Rightarrow> state" where
  "animSec obj startTime s =
     (let elapsed = real (now s - startTime);
          t = min (elapsed / 3000) 1
      in if t < 1 then requestAnimationFrame (AnimSec obj startTime) s
         else (case retract (doorColliderLeft (objs s obj)) (wallBoxes s) of
                 None \<Rightarrow> throwTypeError s
               | Some wb1 \<Rightarrow>
                  (case retract (doorColliderRight (objs s obj)) wb1 of
                     None \<Rightarrow> throwTypeError (s\<lparr>wallBoxes := wb1\<rparr>)
                   | Some wb2 \<Rightarrow> showHint Hint_DarknessDeepens (s\<lparr>wallBoxes := wb2\<rparr>))))"

text \<open>The valve puzzle's exit door: the 1500 ms timeout and the frames of \<^verbatim>\<open>animExit\<close>.\<close>

definition valveExitTimeout :: "state \<Rightarrow> state" where
  "valveExitTimeout s =
     (let s1 = (play PlayTerminal (showHint Hint_PowerRestored s))\<lparr>exitIndicGreen := True\<rparr>
      in requestAnimationFrame (AnimExit (now s1)) s1)"

definition animExit :: "nat \<Rightarrow> state \<Rightarrow> state" where
  "animExit st s =
     (let t = min (real (now s - st) / 2000) 1
      in if t < 1 then requestAnimationFrame (AnimExit st) s
         else (case retract (exitDoorColliderIdx s) (wallBoxes s) of
                 None \<Rightarrow> throwTypeError s
               | Some wb \<Rightarrow> s\<lparr>wallBoxes := wb\<rparr>))"

text \<open>The escape door's two nested timeouts.\<close>

definition escapeTimeout :: "nat \<Rightarrow> state \<Rightarrow> state" where
  "escapeTimeout obj s =
     (let s1 = play PlayDoorSlam s
      in case retract (doorColliderIdx (objs s1 obj)) (wallBoxes s1) of
           None \<Rightarrow> throwTypeError s1
         | Some wb \<Rightarrow> setTimeout EscapeTeleport 500 (s1\<lparr>wallBoxes := wb\<rparr>))"

definition escapeTeleport :: "state \<Rightarrow> state" where
  "escapeTeleport s = showHint Hint_EmergeRooftop (s\<lparr>position := V3 37 (4 + 1.7) (-22)\<rparr>)"

section \<open>The interaction dispatcher\<close>

text \<open>The closing \<^verbatim>\<open>state.collectiblesFound++\<close> of the hit branch.\<close>

definition found :: "state \<Rightarrow> state" where
  "found s = s\<lparr>collectiblesFound := collectiblesFound s + 1\<rparr>"

definition pickUp :: "nat \<Rightarrow> state \<Rightarrow> state" where
  "pickUp obj s = updObj obj (\<lambda>u. u\<lparr>meshVisible := False, interactable := False\<rparr>) s"

definition turnValve :: "nat \<Rightarrow> state \<Rightarrow> state" where
  "turnValve obj s =
     (if \<not> turned (objs s obj)
      then (let s1 = updObj obj (\<lambda>u. u\<lparr>turned := True, indicGreen := True\<rparr>) s;
                s2 = play (PlayTone (300 + real (valvesTurned s1) * 100) 0.3 0.15) s1;
                s3 = s2\<lparr>valvesTurned := valvesTurned s2 + 1\<rparr>;
                s4 = showHint (Hint_ValveActivated (valvesTurned s3)) s3
            in if valvesTurned s4 \<ge> 3 then setTimeout ValveExitTimeout 1500 s4 else s4)
      else s)"

text \<open>
  \<^verbatim>\<open>tryInteract()\<close>.  The ray cast from the view centre is three.js's; \<open>hit\<close> is its
  outcome: the interactable that owns the nearest mesh hit within range, if any.  A branch
  that returns early skips the counter; every other branch falls through to it.
\<close>

definition tryInteract :: "nat option \<Rightarrow> state \<Rightarrow> state" where
  "tryInteract hit s =
     (if paused s \<or> noteOpen s then s
      else case hit of
        None \<Rightarrow> s
      | Some obj \<Rightarrow>
         (if \<not> interactable (objs s obj) then s
          else case utype (objs s obj) of
            Note \<Rightarrow> found (openNote s)
          | Terminal \<Rightarrow> found (play PlayTerminal (openNote s))
          | Vhs \<Rightarrow> found (play PlayStatic (openNote s))
          | Door \<Rightarrow> found (openDoor obj s)
          | Final_terminal \<Rightarrow>
              found ((play PlayTerminal (openNote s))
                       \<lparr>finalTerminalRead := True, pendingCinematic := True\<rparr>)
          | Keycard \<Rightarrow>
              found (showHint Hint_KeycardAcquired
                      (play PlayClick (pickUp obj (s\<lparr>hasKeycard := True\<rparr>))))
          | Valve \<Rightarrow> found (turnValve obj s)
          | Hatch \<Rightarrow>
              (if \<not> finalTerminalRead s \<or> \<not> interactable (objs s obj)
               then showHint Hint_HatchSealed s
               else found (play PlayDoorSlam
                            (showHint Hint_Descend
                              (s\<lparr>position := V3 (-13) (-4 + 1.7) (-26)\<rparr>))))
          | Keycard_10 \<Rightarrow>
              found (showHint Hint_Keycard10Acquired
                      (play PlayClick (pickUp obj (s\<lparr>hasKeycard10 := True\<rparr>))))
          | Escape_door \<Rightarrow>
              (if opened (objs s obj) then s
               else if \<not> hasKeycard10 s
               then found (play (PlayTone 150 0.15 0.1) (showHint Hint_LockedLevel10 s))
               else found (setTimeout (EscapeTimeout obj) 1000
                            (showHint Hint_GrantedRoof
                              (play PlayTerminal
                                (updObj obj (\<lambda>u. u\<lparr>opened := True, indicGreen := True\<rparr>) s)))))
          | Locked_door \<Rightarrow>
              (if opened (objs s obj) then s
               else if \<not> hasKeycard s
               then found (play (PlayTone 150 0.15 0.1) (showHint Hint_LockedNeedCard s))
               else found (openSecurityDoor obj s))))"

section \<open>Keyboard, buttons and pointer lock\<close>

datatype key = KeyW | KeyS | KeyA | KeyD | ShiftLeft | KeyF | KeyE "nat option"

definition toggleFlashlight :: "state \<Rightarrow> state" where
  "toggleFlashlight s =
     (if battery s \<le> 0 then s else play PlayClick (s\<lparr>flashlightOn := \<not> flashlightOn s\<rparr>))"

text \<open>The arrow keys share the cases of W, S, A and D; \<open>KeyE\<close> carries the ray's outcome.\<close>

definition onKeyDown :: "key \<Rightarrow> state \<Rightarrow> state" where
  "onKeyDown k s =
     (if \<not> playing s then s
      else case k of
        KeyW \<Rightarrow> s\<lparr>moveForward := True\<rparr>
      | KeyS \<Rightarrow> s\<lparr>moveBackward := True\<rparr>
      | KeyA \<Rightarrow> s\<lparr>moveLeft := True\<rparr>
      | KeyD \<Rightarrow> s\<lparr>moveRight := True\<rparr>
      | ShiftLeft \<Rightarrow> s\<lparr>sprinting := True\<rparr>
      | KeyF \<Rightarrow> toggleFlashlight s
      | KeyE hit \<Rightarrow> tryInteract hit s)"

definition onKeyUp :: "key \<Rightarrow> state \<Rightarrow> state" where
  "onKeyUp k s =
     (case k of
        KeyW \<Rightarrow> s\<lparr>moveForward := False\<rparr>
      | KeyS \<Rightarrow> s\<lparr>moveBackward := False\<rparr>
      | KeyA \<Rightarrow> s\<lparr>moveLeft := False\<rparr>
      | KeyD \<Rightarrow> s\<lparr>moveRight := False\<rparr>
      | ShiftLeft \<Rightarrow> s\<lparr>sprinting := False\<rparr>
      | _ \<Rightarrow> s)"

definition startGame :: "state \<Rightarrow> state" where
  "startGame s = showHint Hint_LegacyHQ (play StartAmbience (s\<lparr>playing := True, paused := False\<rparr>))"

definition resumeGame :: "state \<Rightarrow> state" where
  "resumeGame s = s\<lparr>paused := False\<rparr>"

definition quitToMenu :: "state \<Rightarrow> state" where
  "quitToMenu s = play StopAll (s\<lparr>playing := False, paused := False\<rparr>)"

text \<open>The handlers of the pointer-lock controls' \<^verbatim>\<open>lock\<close> and \<^verbatim>\<open>unlock\<close> events.\<close>

definition onLock :: "state \<Rightarrow> state" where
  "onLock s = (if playing s \<and> \<not> noteOpen s then s\<lparr>paused := False\<rparr> else s)"

definition onUnlock :: "state \<Rightarrow> state" where
  "onUnlock s = (if playing s \<and> \<not> noteOpen s then s\<lparr>paused := True\<rparr> else s)"

section \<open>The game loop\<close>

text \<open>
  What a frame takes from outside: the clock's delta in seconds, the camera's world
  direction (set by the pointer-lock controls), and the random draws.
\<close>

record frame =
  f_delta :: real
  f_camDir :: vec3
  f_rnd :: rnd

text \<open>\<^verbatim>\<open>v.normalize()\<close> of a vector in the XZ plane, as a pair (x, z).\<close>

definition normalizeXZ :: "real \<times> real \<Rightarrow> real \<times> real" where
  "normalizeXZ v =
     (let l = sqrt ((fst v)\<^sup>2 + (snd v)\<^sup>2); k = (if l = 0 then 1 else l)
      in (fst v / k, snd v / k))"

text \<open>
  \<^verbatim>\<open>state.direction\<close> from the four movement flags, normalised; the move is attempted when
  its length is positive.
\<close>

definition direction :: "state \<Rightarrow> real \<times> real" where
  "direction s =
     normalizeXZ (of_bool (moveRight s) - of_bool (moveLeft s),
                  of_bool (moveForward s) - of_bool (moveBackward s))"

text \<open>
  The desired movement (x, z): the flattened camera direction and its right vector
  \<^verbatim>\<open>camDir x (0,1,0)\<close>, each normalised, scaled by the direction, the speed and the delta.
\<close>

definition moveVec :: "real \<Rightarrow> vec3 \<Rightarrow> state \<Rightarrow> real \<times> real" where
  "moveVec delta cam s =
     (let speed = (if sprinting s then 3.2 else 1.8);
          camDir = normalizeXZ (vx cam, vz cam);
          camRight = normalizeXZ (- snd camDir, fst camDir);
          dx = fst (direction s); dz = snd (direction s)
      in (fst camDir * (dz * speed * delta) + fst camRight * (dx * speed * delta),
          snd camDir * (dz * speed * delta) + snd camRight * (dx * speed * delta)))"

text \<open>
  Per-axis resolution.  \<open>blockedX\<close> and \<open>blockedZ\<close> are the two conditions the loop tests,
  commented \<^verbatim>\<open>// Blocked on X\<close> and \<^verbatim>\<open>// Blocked on Z\<close> there: the collision check after the
  X step, and the one after the Z step taken from wherever the X step ended.
\<close>

definition tryX :: "vec3 \<Rightarrow> real \<Rightarrow> vec3" where
  "tryX pos mx = pos\<lparr>vx := vx pos + mx\<rparr>"

definition blockedX :: "box3 list \<Rightarrow> vec3 \<Rightarrow> real \<Rightarrow> bool" where
  "blockedX wb pos mx = checkCollision wb (tryX pos mx)"

definition afterX :: "box3 list \<Rightarrow> vec3 \<Rightarrow> real \<Rightarrow> vec3" where
  "afterX wb pos mx =
     (let oldX = vx pos; p = tryX pos mx
      in if checkCollision wb p then p\<lparr>vx := oldX\<rparr> else p)"

definition blockedZ :: "box3 list \<Rightarrow> vec3 \<Rightarrow> real \<times> real \<Rightarrow> bool" where
  "blockedZ wb pos mv =
     (let p = afterX wb pos (fst mv) in checkCollision wb (p\<lparr>vz := vz p + snd mv\<rparr>))"

definition resolveMove :: "box3 list \<Rightarrow> vec3 \<Rightarrow> real \<times> real \<Rightarrow> vec3" where
  "resolveMove wb pos mv =
     (let oldZ = vz pos;
          p1 = afterX wb pos (fst mv);
          p2 = p1\<lparr>vz := vz p1 + snd mv\<rparr>
      in if checkCollision wb p2 then p2\<lparr>vz := oldZ\<rparr> else p2)"

definition movement :: "real \<Rightarrow> vec3 \<Rightarrow> state \<Rightarrow> state" where
  "movement delta cam s =
     (let d = direction s
      in if sqrt ((fst d)\<^sup>2 + (snd d)\<^sup>2) > 0
         then s\<lparr>position := resolveMove (wallBoxes s) (position s) (moveVec delta cam s)\<rparr>
         else s)"

definition isMoving :: "state \<Rightarrow> bool" where
  "isMoving s \<longleftrightarrow> moveForward s \<or> moveBackward s \<or> moveLeft s \<or> moveRight s"

text \<open>\<^verbatim>\<open>getHeadBob\<close>: updates \<^verbatim>\<open>bobTime\<close> and returns the offset.\<close>

definition getHeadBob :: "real \<Rightarrow> state \<Rightarrow> real \<times> state" where
  "getHeadBob delta s =
     (if \<not> isMoving s then (0, s\<lparr>bobTime := 0\<rparr>)
      else (let speed = (if sprinting s then 14 else 10);
                amplitude = (if sprinting s then 0.06 else 0.03);
                s1 = s\<lparr>bobTime := bobTime s + delta * speed\<rparr>
            in (sin (bobTime s1) * amplitude, s1)))"

definition floorLevel :: "real \<Rightarrow> real" where
  "floorLevel playerY = (if playerY > 2 then 4 else if playerY < 0 then - 4 else 0)"

definition clamp :: "real \<Rightarrow> real \<Rightarrow> real \<Rightarrow> real" where
  "clamp v lo hi = max lo (min hi v)"

definition clampToLevel :: "real \<Rightarrow> vec3 \<Rightarrow> vec3" where
  "clampToLevel floorY p =
     (if floorY = - 4
      then p\<lparr>vx := clamp (vx p) (-15.5) 39.5, vz := clamp (vz p) (-42.5) (-23.5)\<rparr>
      else if floorY = 4
      then p\<lparr>vx := clamp (vx p) 20.5 49.5, vz := clamp (vz p) (-20.5) (-0.5)\<rparr>
      else p\<lparr>vx := clamp (vx p) (-17.5) 17.5, vz := clamp (vz p) (-27.5) 13.5\<rparr>)"

text \<open>The rooftop edge trigger: tested on the rooftop level while not yet triggered.\<close>

definition rooftopTrigger :: "real \<Rightarrow> state \<Rightarrow> state" where
  "rooftopTrigger floorY s =
     (if floorY = 4 \<and> \<not> triggered s
      then (if containsPoint (triggerZoneBox s) (position s)
            then triggerChapter2Cinematic FromRooftopZone (s\<lparr>triggered := True\<rparr>)
            else s)
      else s)"

definition batteryDrain :: "real \<Rightarrow> state \<Rightarrow> state" where
  "batteryDrain delta s =
     (if flashlightOn s \<and> battery s > 0
      then (let s1 = s\<lparr>battery := battery s - delta * 1.2\<rparr>
            in if battery s1 \<le> 0 then s1\<lparr>battery := 0, flashlightOn := False\<rparr> else s1)
      else s)"

text \<open>
  \<^verbatim>\<open>if (horrorEvents && state.chapter >= 2) horrorEvents.update(...)\<close> and the same for the
  entity; \<^verbatim>\<open>horrorEvents\<close> is an object from initialisation on, \<^verbatim>\<open>entitySystem\<close> may be null.
\<close>

definition updateSystems :: "real \<Rightarrow> rnd \<Rightarrow> state \<Rightarrow> state" where
  "updateSystems delta r s =
     (let s1 = (if chapter_no s \<ge> 2
                then (let (h, tr) = horror_update delta (position s) r (horrorEvents s, trace s)
                      in s\<lparr>horrorEvents := h, trace := tr\<rparr>)
                else s)
      in case entitySystem s1 of
           None \<Rightarrow> s1
         | Some e \<Rightarrow>
            (if chapter_no s1 \<ge> 2
             then (let (e', tr) = entity_update delta (position s1) r (e, trace s1)
                   in s1\<lparr>entitySystem := Some e', trace := tr\<rparr>)
             else s1))"

text \<open>
  The body of \<^verbatim>\<open>animate()\<close> that touches the session: movement, floor level and head bob,
  level bounds, the rooftop trigger, the battery, and the systems.  Rendering, the prompt
  ray, the blizzard, the audio update, the steam bursts and the footsteps are left out.
\<close>

definition animate :: "frame \<Rightarrow> state \<Rightarrow> state" where
  "animate f s =
     (let delta = min (f_delta f) 0.1
      in if playing s \<and> \<not> paused s \<and> \<not> noteOpen s
         then (let s1 = movement delta (f_camDir f) s;
                   floorY = floorLevel (vy (position s1));
                   (bob, s2) = getHeadBob delta s1;
                   s3 = s2\<lparr>position := (position s2)\<lparr>vy := floorY + 1.7 + bob\<rparr>\<rparr>;
                   s4 = s3\<lparr>position := clampToLevel floorY (position s3)\<rparr>;
                   s5 = rooftopTrigger floorY s4;
                   s6 = batteryDrain delta s5
               in updateSystems delta (f_rnd f) s6)
         else s)"

section \<open>Callbacks and events\<close>

definition run_task :: "task \<Rightarrow> state \<Rightarrow> state" where
  "run_task k s =
     (case k of
        ValveExitTimeout \<Rightarrow> valveExitTimeout s
      | AnimExit st \<Rightarrow> animExit st s
      | EscapeTimeout obj \<Rightarrow> escapeTimeout obj s
      | EscapeTeleport \<Rightarrow> escapeTeleport s
      | SecDoorTimeout obj \<Rightarrow> secDoorTimeout obj s
      | AnimSec obj st \<Rightarrow> animSec obj st s
      | AnimDoor obj st \<Rightarrow> animDoor obj st s
      | CinStep2 \<Rightarrow> cinStep2 s
      | CinStep3 \<Rightarrow> cinStep3 s
      | CinStep4 \<Rightarrow> cinStep4 s
      | CinStep5 \<Rightarrow> cinStep5 s
      | CinStep6 \<Rightarrow> cinStep6 s
      | CinStep7 \<Rightarrow> cinStep7 s)"

text \<open>
  What the browser delivers, one at a time: key and button events, pointer-lock events,
  animation frames, the passing of time, and the run of a registered callback.  The
  callback at place \<open>k\<close> of \<open>pending\<close> runs only once its time has come, and leaves the list.
\<close>

datatype event =
    KeyDown key
  | KeyUp key
  | BtnPlay
  | BtnResume
  | BtnQuit
  | BtnCloseNote
  | Lock
  | Unlock
  | Frame frame
  | Clock nat
  | Run nat

definition run_pending :: "nat \<Rightarrow> state \<Rightarrow> state" where
  "run_pending k s =
     (if k < length (pending s) \<and> fst (pending s ! k) \<le> now s
      then run_task (snd (pending s ! k))
             (s\<lparr>pending := take k (pending s) @ drop (Suc k) (pending s)\<rparr>)
      else s)"

definition step :: "event \<Rightarrow> state \<Rightarrow> state" where
  "step e s =
     (case e of
        KeyDown k \<Rightarrow> onKeyDown k s
      | KeyUp k \<Rightarrow> onKeyUp k s
      | BtnPlay \<Rightarrow> startGame s
      | BtnResume \<Rightarrow> resumeGame s
      | BtnQuit \<Rightarrow> quitToMenu s
      | BtnCloseNote \<Rightarrow> closeNote s
      | Lock \<Rightarrow> onLock s
      | Unlock \<Rightarrow> onUnlock s
      | Frame f \<Rightarrow> animate f s
      | Clock t \<Rightarrow> s\<lparr>now := max (now s) t\<rparr>
      | Run k \<Rightarrow> run_pending k s)"

primrec run :: "event list \<Rightarrow> state \<Rightarrow> state" where
  "run [] s = s"
| "run (e # es) s = run es (step e s)"

text \<open>The interact key pressed while the view-centre ray hits interactable \<open>v\<close>.\<close>

definition pressE :: "nat \<Rightarrow> event" where
  "pressE v = KeyDown (KeyE (Some v))"

section \<open>Initialisation\<close>

text \<open>
  What the level builders hand to \<^verbatim>\<open>init()\<close>: the interactables, the colliders of the four
  areas in the order they are pushed, the hatch trigger, the tunnel exit's collider index,
  the box of the rooftop trigger zone, and the first scare time drawn by the constructor
  of \<^verbatim>\<open>HorrorEvents\<close>.
\<close>

record level =
  l_objs :: "nat \<Rightarrow> userData"
  l_colliders :: "box3 list"
  l_hatchTrigger :: "nat option"
  l_exitDoorColliderIdx :: "nat option"
  l_triggerZoneBox :: box3
  l_nextScareTime :: real

text \<open>
  A fresh \<^verbatim>\<open>HorrorEvents\<close> instance, as the constructor leaves it, with the first scare time
  it drew.
\<close>

definition new_horror :: "real \<Rightarrow> horror" where
  "new_horror next = \<lparr>h_triggered = {}, flickerOverride = 0, scareTimer = 0,
     nextScareTime = next, shadowVisible = False, shadowOpacity = 0.85\<rparr>"

definition init :: "level \<Rightarrow> state" where
  "init l =
     \<lparr>playing = False, paused = False, noteOpen = False, flashlightOn = True, battery = 100,
      moveForward = False, moveBackward = False, moveLeft = False, moveRight = False,
      sprinting = False, collectiblesFound = 0, chapter_no = 1, valvesTurned = 0,
      finalTerminalRead = False, pendingCinematic = False, hasKeycard = False,
      hasKeycard10 = False, position = V3 0 1.7 5.5, bobTime = 0,
      objs = l_objs l, wallBoxes = l_colliders l, hatchTrigger = l_hatchTrigger l,
      exitDoorColliderIdx = l_exitDoorColliderIdx l, exitIndicGreen = False,
      triggerZoneBox = l_triggerZoneBox l, triggered = False,
      now = 0, pending = [], trace = [], uncaught = 0,
      horrorEvents = new_horror (l_nextScareTime l),
      entitySystem = None\<rparr>"

section \<open>A small level\<close>

text \<open>
  A cut-down level with the builders' own figures, for running the definitions: the two
  leaves of the inner door, the two leaves of the security door, the hatch panel, the
  tunnel's exit door and the escape door as colliders 0 to 6; the inner door, the security
  door, the level-5 keycard, the hatch, the final terminal, three valves, the level-10
  keycard, the escape door and a note as interactables 0 to 10.
\<close>

definition blank :: userData where
  "blank = \<lparr>utype = Note, interactable = False, meshVisible = True, opened = False,
            turned = False, indicGreen = False, hatchGlowOn = False,
            doorColliderLeft = None, doorColliderRight = None, doorColliderIdx = None\<rparr>"

definition mk :: "kind \<Rightarrow> userData" where
  "mk k = blank\<lparr>utype := k, interactable := True\<rparr>"

definition demo_objs :: "nat \<Rightarrow> userData" where
  "demo_objs =
     (\<lambda>_. blank)
       (0 := (mk Door)\<lparr>doorColliderLeft := Some 0, doorColliderRight := Some 1\<rparr>,
        1 := (mk Locked_door)\<lparr>doorColliderLeft := Some 2, doorColliderRight := Some 3\<rparr>,
        2 := mk Keycard,
        3 := (mk Hatch)\<lparr>interactable := False\<rparr>,
        4 := mk Final_terminal,
        5 := mk Valve, 6 := mk Valve, 7 := mk Valve,
        8 := mk Keycard_10,
        9 := (mk Escape_door)\<lparr>doorColliderIdx := Some 6\<rparr>,
        10 := mk Note)"

definition demo_colliders :: "box3 list" where
  "demo_colliders =
     [setFromCenterAndSize (V3 (-1.1) 1.6 4) (V3 2.2 3.2 0.4),
      setFromCenterAndSize (V3 1.1 1.6 4) (V3 2.2 3.2 0.4),
      setFromCenterAndSize (V3 (-1.1) 1.6 (-17)) (V3 2.2 3.2 0.4),
      setFromCenterAndSize (V3 1.1 1.6 (-17)) (V3 2.2 3.2 0.4),
      setFromCenterAndSize (V3 (-13) 0.06 (-26)) (V3 1.5 0.08 1.5),
      setFromCenterAndSize (V3 19.8 (-2.4) (-36)) (V3 0.4 3.0 3.5),
      setFromCenterAndSize (V3 37 (-2.1) (-24.3)) (V3 3.5 3.2 0.4)]"

definition demo_level :: level where
  "demo_level =
     \<lparr>l_objs = demo_objs, l_colliders = demo_colliders, l_hatchTrigger = Some 3,
      l_exitDoorColliderIdx = Some 5,
      l_triggerZoneBox = setFromCenterAndSize (V3 35 5.5 (-2)) (V3 20 3 3),
      l_nextScareTime = 25\<rparr>"

text \<open>A frame of 16 ms with the camera looking along -Z.\<close>

definition demo_frame :: frame where
  "demo_frame =
     \<lparr>f_delta = 0.016, f_camDir = V3 0 0 (-1),
      f_rnd = \<lparr>r_next = 0.5, r_roll = 0.5, r_whisper = 0.5, r_hide = 0.5, r_appear = 0.5,
               r_beat = 0.5\<rparr>\<rparr>"

text \<open>The session after the title screen's play button and the pointer lock.\<close>

definition demo :: state where
  "demo = run [BtnPlay, Lock] (init demo_level)"

text \<open>
  The wall builders of \<^verbatim>\<open>buildLegacyHQ\<close>, with its wall thickness \<^verbatim>\<open>W = 0.4\<close>, wall height
  \<^verbatim>\<open>H = 4\<close> and half height \<^verbatim>\<open>HH = 2\<close>: the box that \<^verbatim>\<open>addBox\<close> pushes to the colliders.
\<close>

definition wallX :: "real \<Rightarrow> real \<Rightarrow> real \<Rightarrow> box3" where
  "wallX x1 x2 z =
     (let len = \<bar>x2 - x1\<bar>; cx = (x1 + x2) / 2
      in setFromCenterAndSize (V3 cx 2 z) (V3 len 4 0.4))"

definition wallZ :: "real \<Rightarrow> real \<Rightarrow> real \<Rightarrow> box3" where
  "wallZ z1 z2 x =
     (let len = \<bar>z2 - z1\<bar>; cz = (z1 + z2) / 2
      in setFromCenterAndSize (V3 x 2 cz) (V3 0.4 4 len))"

text \<open>
  The lobby's left corner: the left outer wall \<^verbatim>\<open>wallZ(-28, 14, -18, extMat)\<close> and the left
  section \<^verbatim>\<open>wallX(-18, -2.2, 4, wallMat)\<close> of the wall between lobby and hallway.
\<close>

definition corner_colliders :: "box3 list" where
  "corner_colliders = [wallZ (-28) 14 (-18), wallX (-18) (-2.2) 4]"

text \<open>
  A frame of 100 ms, the cap the loop puts on the delta, with the camera looking along
  (-3, 0, -4), and a session with the forward key held in which the player stands in that
  corner, at the ground floor's bound x = -17.5.
\<close>

definition corner_frame :: frame where
  "corner_frame = demo_frame\<lparr>f_delta := 0.1, f_camDir := V3 (-3) 0 (-4)\<rparr>"

definition corner :: state where
  "corner =
     (run [KeyDown KeyW] demo)\<lparr>wallBoxes := corner_colliders, position := V3 (-17.5) 1.7 4.5\<rparr>"

text \<open>
  The small level after interacts on the inner door, a valve, both keycards, the security
  door and the escape door.
\<close>

definition demo_solved :: state where
  "demo_solved = run (map pressE [0, 5, 2, 8, 1, 9]) demo"

text \<open>The small level after a refused interact on the security door and the keycard's pick-up.\<close>

definition demo_carded :: state where
  "demo_carded = run [pressE 1, pressE 2] demo"

text \<open>
  The small level with the player standing in the rooftop trigger zone, the final terminal
  unread: one frame starts the cinematic, its hatch step runs at 12 s and its last step at
  14 s.
\<close>

definition demo_roof :: state where
  "demo_roof =
     run [Frame demo_frame, Clock 12000, Run 4, Clock 14000, Run 4]
       (demo\<lparr>position := V3 35 5.7 (-2)\<rparr>)"

text \<open>
  The cinematic's timeouts running on time up to the hatch step: \<open>n\<close> is the number of
  callbacks pending when the cinematic started and \<open>t0\<close> the time it started at, so that
  the next step is always at place \<open>n\<close>.
\<close>

definition on_time_to_step6 :: "nat \<Rightarrow> nat \<Rightarrow> event list" where
  "on_time_to_step6 n t0 =
     [Clock (t0 + 2000), Run n, Clock (t0 + 4500), Run n, Clock (t0 + 5500), Run n,
      Clock (t0 + 7500), Run n, Clock (t0 + 12000), Run n]"


section \<open>Predicates used in the proofs\<close>

text \<open>
  \<open>zone_once s s'\<close>: the rooftop zone's \<open>triggered\<close> flag, if set in \<open>s\<close>, is set in \<open>s'\<close>, and
  from \<open>s\<close> to \<open>s'\<close> the zone has started the cinematic once if the flag went from unset to
  set, and not at all otherwise.
\<close>

definition zone_once :: "state \<Rightarrow> state \<Rightarrow> bool" where
  "zone_once s s' \<longleftrightarrow>
     (triggered s \<longrightarrow> triggered s') \<and>
     count_list (trace s') (Cinematic FromRooftopZone) =
       count_list (trace s) (Cinematic FromRooftopZone) +
         (if triggered s' \<and> \<not> triggered s then 1 else 0)"


text \<open>
  \<open>keeps i s s'\<close>: the collider array has kept its length from \<open>s\<close> to \<open>s'\<close>, and
  collider \<open>i\<close>, if it was empty in \<open>s\<close>, is empty in \<open>s'\<close>.
\<close>

definition keeps :: "nat \<Rightarrow> state \<Rightarrow> state \<Rightarrow> bool" where
  "keeps i s s' \<longleftrightarrow> length (wallBoxes s') = length (wallBoxes s) \<and>
     (i < length (wallBoxes s) \<and> wallBoxes s ! i = makeEmpty \<longrightarrow> wallBoxes s' ! i = makeEmpty)"

text \<open>
  \<open>mono_flags s s'\<close>: every \<open>opened\<close> or \<open>turned\<close> flag and both keycard flags that are set
  in \<open>s\<close> are set in \<open>s'\<close>, every interactable has kept its type tag, and every
  interactable other than a keycard that could be interacted with in \<open>s\<close> still can in \<open>s'\<close>.
\<close>

definition mono_flags :: "state \<Rightarrow> state \<Rightarrow> bool" where
  "mono_flags s s' \<longleftrightarrow>
     (\<forall>i. (opened (objs s i) \<longrightarrow> opened (objs s' i)) \<and>
          (turned (objs s i) \<longrightarrow> turned (objs s' i)) \<and>
          utype (objs s' i) = utype (objs s i) \<and>
          (interactable (objs s i) \<and> utype (objs s i) \<noteq> Keycard \<and>
           utype (objs s i) \<noteq> Keycard_10 \<longrightarrow> interactable (objs s' i))) \<and>
     (hasKeycard s \<longrightarrow> hasKeycard s') \<and> (hasKeycard10 s \<longrightarrow> hasKeycard10 s')"

text \<open>
  \<open>sealed_until T h s\<close>: \<open>h\<close> is a hatch; every hatch step of a cinematic that is pending, or
  that could be registered from now on, is due at \<open>T\<close> or later; and while the clock is
  before \<open>T\<close> the hatch is not interactable.
\<close>

definition sealed_until :: "nat \<Rightarrow> nat \<Rightarrow> state \<Rightarrow> bool" where
  "sealed_until T h s \<longleftrightarrow>
     utype (objs s h) = Hatch \<and> T \<le> now s + 12000 \<and>
     (\<forall>p \<in> set (pending s). snd p = CinStep6 \<longrightarrow> T \<le> fst p) \<and>
     (now s < T \<longrightarrow> \<not> interactable (objs s h))"

section \<open>Retracted colliders\<close>

lemma intersects_makeEmpty: "\<not> intersectsBox (playerBox p) makeEmpty"
  by (simp add: intersectsBox_def playerBox_def setFromCenterAndSize_def makeEmpty_def num_ge_def)

named_theorems helper_defs
declare showHint_def [helper_defs] play_def [helper_defs] emit_def [helper_defs]
  setTimeout_def [helper_defs] requestAnimationFrame_def [helper_defs] updObj_def [helper_defs]
  throwTypeError_def [helper_defs] found_def [helper_defs] openNote_def [helper_defs]
  pickUp_def [helper_defs]

lemma keeps_refl [simp]: "keeps i s s"
  by (simp add: keeps_def)

lemma keeps_trans: "keeps i s s' \<Longrightarrow> keeps i s' s'' \<Longrightarrow> keeps i s s''"
  by (auto simp: keeps_def)

lemma retract_keeps:
  "retract idx wb = Some wb' \<Longrightarrow> length wb' = length wb \<and> (i < length wb \<and> wb ! i = makeEmpty \<longrightarrow> wb' ! i = makeEmpty)"
  by (auto simp: retract_def nth_list_update split: option.splits if_splits)

lemma keeps_tryInteract: "keeps i s (tryInteract hit s)"
  by (simp add: keeps_def tryInteract_def helper_defs turnValve_def openDoor_def openSecurityDoor_def Let_def
      split: option.splits kind.splits)

lemma keeps_cinematic: "keeps i s (triggerChapter2Cinematic c s)"
  by (simp add: keeps_def triggerChapter2Cinematic_def helper_defs)

lemma keeps_animDoor: "keeps i s (animDoor obj st s)"
  using retract_keeps [of "doorColliderLeft (objs s obj)" "wallBoxes s" _ i]
        retract_keeps [of "doorColliderRight (objs s obj)" _ _ i]
  by (auto simp: keeps_def animDoor_def helper_defs Let_def split: option.splits)

lemma keeps_animSec: "keeps i s (animSec obj st s)"
  using retract_keeps [of "doorColliderLeft (objs s obj)" "wallBoxes s" _ i]
        retract_keeps [of "doorColliderRight (objs s obj)" _ _ i]
  by (auto simp: keeps_def animSec_def helper_defs Let_def split: option.splits)

lemma keeps_animExit: "keeps i s (animExit st s)"
  using retract_keeps [of "exitDoorColliderIdx s" "wallBoxes s" _ i]
  by (auto simp: keeps_def animExit_def helper_defs Let_def split: option.splits)

lemma keeps_escapeTimeout: "keeps i s (escapeTimeout obj s)"
  using retract_keeps [of "doorColliderIdx (objs s obj)" "wallBoxes s" _ i]
  by (auto simp: keeps_def escapeTimeout_def helper_defs Let_def split: option.splits)

lemma keeps_run_task: "keeps i s (run_task k s)"
  by (cases k)
     (simp_all add: run_task_def keeps_animDoor keeps_animSec keeps_animExit keeps_escapeTimeout,
      simp_all add: keeps_def valveExitTimeout_def escapeTeleport_def secDoorTimeout_def
        cinStep2_def cinStep3_def cinStep4_def cinStep5_def cinStep6_def cinStep7_def
        helper_defs Let_def split: option.splits)

lemma keeps_run_pending: "keeps i s (run_pending k s)"
proof -
  have "keeps i (s\<lparr>pending := take k (pending s) @ drop (Suc k) (pending s)\<rparr>)
          (run_task (snd (pending s ! k)) (s\<lparr>pending := take k (pending s) @ drop (Suc k) (pending s)\<rparr>))"
    by (rule keeps_run_task)
  then show ?thesis by (simp add: run_pending_def keeps_def)
qed

lemma wb_movement [simp]: "wallBoxes (movement d c s) = wallBoxes s"
  by (simp add: movement_def Let_def)

lemma wb_getHeadBob [simp]: "wallBoxes (snd (getHeadBob d s)) = wallBoxes s"
  by (simp add: getHeadBob_def Let_def)

lemma keeps_rooftopTrigger: "keeps i s (rooftopTrigger fl s)"
  by (simp add: rooftopTrigger_def keeps_def triggerChapter2Cinematic_def helper_defs)

lemma wb_rooftopTrigger [simp]: "wallBoxes (rooftopTrigger fl s) = wallBoxes s"
  by (simp add: rooftopTrigger_def triggerChapter2Cinematic_def helper_defs)

lemma wb_batteryDrain [simp]: "wallBoxes (batteryDrain d s) = wallBoxes s"
  by (simp add: batteryDrain_def Let_def)

lemma wb_updateSystems [simp]: "wallBoxes (updateSystems d r s) = wallBoxes s"
  by (simp add: updateSystems_def Let_def split: option.splits prod.splits)

lemma wb_animate [simp]: "wallBoxes (animate f s) = wallBoxes s"
  by (simp add: animate_def Let_def split_beta)

lemma keeps_animate: "keeps i s (animate f s)"
  by (simp add: keeps_def)

lemma keeps_step: "keeps i s (step e s)"
proof (cases e)
  case (KeyDown k)
  then show ?thesis
    by (cases k) (simp_all add: step_def onKeyDown_def keeps_tryInteract, simp_all add: keeps_def toggleFlashlight_def helper_defs)
next
  case (KeyUp k)
  then show ?thesis by (cases k) (simp_all add: step_def onKeyUp_def keeps_def)
next
  case BtnCloseNote
  then show ?thesis
    by (simp add: step_def closeNote_def keeps_def triggerChapter2Cinematic_def helper_defs Let_def)
next
  case (Frame f)
  then show ?thesis by (simp add: step_def keeps_animate)
next
  case (Run k)
  then show ?thesis by (simp add: step_def keeps_run_pending)
qed (simp_all add: step_def keeps_def startGame_def resumeGame_def quitToMenu_def onLock_def onUnlock_def helper_defs)

lemma keeps_run: "keeps i s (run es s)"
proof (induction es arbitrary: s)
  case Nil
  show ?case by simp
next
  case (Cons e es)
  show ?case using keeps_trans [OF keeps_step Cons.IH] by simp
qed


lemma run_append: "run (es @ fs) s = run fs (run es s)"
  by (induction es arbitrary: s) simp_all

lemma empty_forever:
  assumes "i < length (wallBoxes s)" and "wallBoxes s ! i = makeEmpty"
  shows "\<not> intersectsBox (playerBox p) (wallBoxes (run es s) ! i)"
proof -
  have "wallBoxes (run es s) ! i = makeEmpty"
    using keeps_run [of i s es] assms by (simp add: keeps_def)
  then show ?thesis by (simp add: intersects_makeEmpty)
qed

lemma retract_two:
  assumes "l < length wb" and "r < length wb"
  shows "\<exists>wb1 wb2. retract (Some l) wb = Some wb1 \<and> retract (Some r) wb1 = Some wb2 \<and>
           length wb2 = length wb \<and> wb2 ! l = makeEmpty \<and> wb2 ! r = makeEmpty"
  using assms by (auto simp: retract_def nth_list_update)

lemma animDoor_done:
  assumes "st + 2000 \<le> now s" and "doorColliderLeft (objs s obj) = Some l"
    and "doorColliderRight (objs s obj) = Some r"
    and "l < length (wallBoxes s)" and "r < length (wallBoxes s)"
  shows "length (wallBoxes (animDoor obj st s)) = length (wallBoxes s) \<and>
         wallBoxes (animDoor obj st s) ! l = makeEmpty \<and>
         wallBoxes (animDoor obj st s) ! r = makeEmpty"
proof -
  have t: "\<not> min (real (now s - st) / 2000) 1 < 1" using assms(1) by simp
  obtain wb1 wb2 where "retract (Some l) (wallBoxes s) = Some wb1" "retract (Some r) wb1 = Some wb2"
     "length wb2 = length (wallBoxes s)" "wb2 ! l = makeEmpty" "wb2 ! r = makeEmpty"
    using retract_two [OF assms(4,5)] by blast
  then show ?thesis
    using t assms(2,3) by (simp add: animDoor_def Let_def showHint_def)
qed

lemma animSec_done:
  assumes "st + 3000 \<le> now s" and "doorColliderLeft (objs s obj) = Some l"
    and "doorColliderRight (objs s obj) = Some r"
    and "l < length (wallBoxes s)" and "r < length (wallBoxes s)"
  shows "length (wallBoxes (animSec obj st s)) = length (wallBoxes s) \<and>
         wallBoxes (animSec obj st s) ! l = makeEmpty \<and>
         wallBoxes (animSec obj st s) ! r = makeEmpty"
proof -
  have t: "\<not> min (real (now s - st) / 3000) 1 < 1" using assms(1) by simp
  obtain wb1 wb2 where "retract (Some l) (wallBoxes s) = Some wb1" "retract (Some r) wb1 = Some wb2"
     "length wb2 = length (wallBoxes s)" "wb2 ! l = makeEmpty" "wb2 ! r = makeEmpty"
    using retract_two [OF assms(4,5)] by blast
  then show ?thesis
    using t assms(2,3) by (simp add: animSec_def Let_def showHint_def)
qed

lemma animExit_done:
  assumes "st + 2000 \<le> now s" and "exitDoorColliderIdx s = Some i" and "i < length (wallBoxes s)"
  shows "length (wallBoxes (animExit st s)) = length (wallBoxes s) \<and>
         wallBoxes (animExit st s) ! i = makeEmpty"
proof -
  have t: "\<not> min (real (now s - st) / 2000) 1 < 1" using assms(1) by simp
  show ?thesis using t assms(2,3) by (simp add: animExit_def Let_def retract_def)
qed

lemma escapeTimeout_done:
  assumes "doorColliderIdx (objs s obj) = Some i" and "i < length (wallBoxes s)"
  shows "length (wallBoxes (escapeTimeout obj s)) = length (wallBoxes s) \<and>
         wallBoxes (escapeTimeout obj s) ! i = makeEmpty"
  using assms by (simp add: escapeTimeout_def Let_def retract_def play_def setTimeout_def)

text \<open>
  Claim C2.  When the closing frame of a door's or the security door's slide, the closing
  frame of the valve puzzle's exit slide, or the escape door's timeout empties the colliders
  it refers to, then after any further events and for every position of the player, the
  player's box does not intersect those colliders.
\<close>

theorem retracted_collider_never_intersects:
  "(st + 2000 \<le> now s \<and> doorColliderLeft (objs s obj) = Some l \<and>
    doorColliderRight (objs s obj) = Some r \<and> l < length (wallBoxes s) \<and> r < length (wallBoxes s)
      \<longrightarrow> \<not> intersectsBox (playerBox p) (wallBoxes (run es (animDoor obj st s)) ! l) \<and>
          \<not> intersectsBox (playerBox p) (wallBoxes (run es (animDoor obj st s)) ! r)) \<and>
   (st + 3000 \<le> now s \<and> doorColliderLeft (objs s obj) = Some l \<and>
    doorColliderRight (objs s obj) = Some r \<and> l < length (wallBoxes s) \<and> r < length (wallBoxes s)
      \<longrightarrow> \<not> intersectsBox (playerBox p) (wallBoxes (run es (animSec obj st s)) ! l) \<and>
          \<not> intersectsBox (playerBox p) (wallBoxes (run es (animSec obj st s)) ! r)) \<and>
   (st + 2000 \<le> now s \<and> exitDoorColliderIdx s = Some i \<and> i < length (wallBoxes s)
      \<longrightarrow> \<not> intersectsBox (playerBox p) (wallBoxes (run es (animExit st s)) ! i)) \<and>
   (doorColliderIdx (objs s obj) = Some i \<and> i < length (wallBoxes s)
      \<longrightarrow> \<not> intersectsBox (playerBox p) (wallBoxes (run es (escapeTimeout obj s)) ! i))"
proof (intro conjI impI)
  assume h: "st + 2000 \<le> now s \<and> doorColliderLeft (objs s obj) = Some l \<and>
    doorColliderRight (objs s obj) = Some r \<and> l < length (wallBoxes s) \<and> r < length (wallBoxes s)"
  then have d: "length (wallBoxes (animDoor obj st s)) = length (wallBoxes s) \<and>
         wallBoxes (animDoor obj st s) ! l = makeEmpty \<and>
         wallBoxes (animDoor obj st s) ! r = makeEmpty"
    using animDoor_done [of st s obj l r] by blast
  show "\<not> intersectsBox (playerBox p) (wallBoxes (run es (animDoor obj st s)) ! l)"
    using d h by (intro empty_forever) simp_all
  show "\<not> intersectsBox (playerBox p) (wallBoxes (run es (animDoor obj st s)) ! r)"
    using d h by (intro empty_forever) simp_all
next
  assume h: "st + 3000 \<le> now s \<and> doorColliderLeft (objs s obj) = Some l \<and>
    doorColliderRight (objs s obj) = Some r \<and> l < length (wallBoxes s) \<and> r < length (wallBoxes s)"
  then have d: "length (wallBoxes (animSec obj st s)) = length (wallBoxes s) \<and>
         wallBoxes (animSec obj st s) ! l = makeEmpty \<and>
         wallBoxes (animSec obj st s) ! r = makeEmpty"
    using animSec_done [of st s obj l r] by blast
  show "\<not> intersectsBox (playerBox p) (wallBoxes (run es (animSec obj st s)) ! l)"
    using d h by (intro empty_forever) simp_all
  show "\<not> intersectsBox (playerBox p) (wallBoxes (run es (animSec obj st s)) ! r)"
    using d h by (intro empty_forever) simp_all
next
  assume h: "st + 2000 \<le> now s \<and> exitDoorColliderIdx s = Some i \<and> i < length (wallBoxes s)"
  then have d: "length (wallBoxes (animExit st s)) = length (wallBoxes s) \<and>
         wallBoxes (animExit st s) ! i = makeEmpty"
    using animExit_done [of st s i] by blast
  show "\<not> intersectsBox (playerBox p) (wallBoxes (run es (animExit st s)) ! i)"
    using d h by (intro empty_forever) simp_all
next
  assume h: "doorColliderIdx (objs s obj) = Some i \<and> i < length (wallBoxes s)"
  then have d: "length (wallBoxes (escapeTimeout obj s)) = length (wallBoxes s) \<and>
         wallBoxes (escapeTimeout obj s) ! i = makeEmpty"
    using escapeTimeout_done [of s obj i] by blast
  show "\<not> intersectsBox (playerBox p) (wallBoxes (run es (escapeTimeout obj s)) ! i)"
    using d h by (intro empty_forever) simp_all
qed

lemma demo_eval:
  "now demo = 0" "wallBoxes demo = demo_colliders" "objs demo = demo_objs"
  "exitDoorColliderIdx demo = Some 5"
  by (simp_all add: demo_def step_def startGame_def onLock_def init_def demo_level_def
       showHint_def play_def)

lemma demo_objs_eval:
  "doorColliderLeft (demo_objs 0) = Some 0" "doorColliderRight (demo_objs 0) = Some 1"
  "doorColliderLeft (demo_objs (Suc 0)) = Some 2" "doorColliderRight (demo_objs (Suc 0)) = Some 3"
  "doorColliderIdx (demo_objs 9) = Some 6" "length demo_colliders = 7"
  by (simp_all add: demo_objs_def mk_def blank_def demo_colliders_def)

theorem retracted_collider_never_intersects_witness:
  "\<not> intersectsBox (playerBox (V3 0 1.7 4))
       (wallBoxes (run [KeyDown KeyW] (animDoor 0 0 (demo\<lparr>now := 2000\<rparr>))) ! 0) \<and>
   \<not> intersectsBox (playerBox (V3 1 1.7 (-17)))
       (wallBoxes (run [KeyDown KeyW] (animSec 1 0 (demo\<lparr>now := 3000\<rparr>))) ! 3) \<and>
   \<not> intersectsBox (playerBox (V3 19.8 (-2.3) (-36)))
       (wallBoxes (run [KeyDown KeyW] (animExit 0 (demo\<lparr>now := 2000\<rparr>))) ! 5) \<and>
   \<not> intersectsBox (playerBox (V3 37 (-2.3) (-24.3)))
       (wallBoxes (run [KeyDown KeyW] (escapeTimeout 9 demo)) ! 6)"
  using retracted_collider_never_intersects
          [where st = 0 and s = "demo\<lparr>now := 2000\<rparr>" and obj = 0 and l = 0 and r = 1
             and p = "V3 0 1.7 4" and es = "[KeyDown KeyW]"]
        retracted_collider_never_intersects
          [where st = 0 and s = "demo\<lparr>now := 3000\<rparr>" and obj = 1 and l = 2 and r = 3
             and p = "V3 1 1.7 (-17)" and es = "[KeyDown KeyW]"]
        retracted_collider_never_intersects
          [where st = 0 and s = "demo\<lparr>now := 2000\<rparr>" and i = 5
             and p = "V3 19.8 (-2.3) (-36)" and es = "[KeyDown KeyW]"]
        retracted_collider_never_intersects
          [where s = demo and obj = 9 and i = 6
             and p = "V3 37 (-2.3) (-24.3)" and es = "[KeyDown KeyW]"]
  by (simp add: demo_eval demo_objs_eval)


section \<open>Per-axis movement\<close>

lemma direction_nonzero:
  "sqrt ((fst (direction s))\<^sup>2 + (snd (direction s))\<^sup>2) > 0 \<longleftrightarrow>
     moveRight s \<noteq> moveLeft s \<or> moveForward s \<noteq> moveBackward s"
  by (cases "moveRight s"; cases "moveLeft s"; cases "moveForward s"; cases "moveBackward s")
     (simp_all add: direction_def normalizeXZ_def Let_def power2_eq_square)

lemma resolveMove_cases:
  "resolveMove wb pos mv =
     (let p1 = (if blockedX wb pos (fst mv) then pos else pos\<lparr>vx := vx pos + fst mv\<rparr>)
      in if blockedZ wb pos mv then p1 else p1\<lparr>vz := vz pos + snd mv\<rparr>)"
  by (simp add: resolveMove_def blockedZ_def blockedX_def afterX_def tryX_def Let_def)

lemma blockedZ_unfold:
  "blockedZ wb pos mv =
     checkCollision wb ((if blockedX wb pos (fst mv) then pos else pos\<lparr>vx := vx pos + fst mv\<rparr>)
                          \<lparr>vz := vz pos + snd mv\<rparr>)"
  by (simp add: blockedZ_def blockedX_def afterX_def tryX_def Let_def)

lemma blockedX_unfold: "blockedX wb pos mx = checkCollision wb (pos\<lparr>vx := vx pos + mx\<rparr>)"
  by (simp add: blockedX_def tryX_def)

lemma pos_movement:
  "sqrt ((fst (direction s))\<^sup>2 + (snd (direction s))\<^sup>2) > 0 \<Longrightarrow>
   position (movement d c s) = resolveMove (wallBoxes s) (position s) (moveVec d c s)"
  by (simp add: movement_def Let_def)

lemma vy_resolveMove [simp]: "vy (resolveMove wb pos mv) = vy pos"
  by (simp add: resolveMove_def afterX_def tryX_def Let_def)

lemma isMoving_movement [simp]: "isMoving (movement d c s) = isMoving s"
  by (simp add: movement_def isMoving_def Let_def)

lemma sprinting_movement [simp]: "sprinting (movement d c s) = sprinting s"
  by (simp add: movement_def Let_def)

lemma bobTime_movement [simp]: "bobTime (movement d c s) = bobTime s"
  by (simp add: movement_def Let_def)

lemma bob_movement [simp]: "fst (getHeadBob d (movement d' c s)) = fst (getHeadBob d s)"
  by (simp add: getHeadBob_def Let_def)

lemma pos_getHeadBob [simp]: "position (snd (getHeadBob d s)) = position s"
  by (simp add: getHeadBob_def Let_def)

lemma pos_rooftopTrigger [simp]: "position (rooftopTrigger fl s) = position s"
  by (simp add: rooftopTrigger_def triggerChapter2Cinematic_def helper_defs)

lemma pos_batteryDrain [simp]: "position (batteryDrain d s) = position s"
  by (simp add: batteryDrain_def Let_def)

lemma pos_updateSystems [simp]: "position (updateSystems d r s) = position s"
  by (simp add: updateSystems_def Let_def split: option.splits prod.splits)

lemma pos_animate:
  "playing s \<and> \<not> paused s \<and> \<not> noteOpen s \<Longrightarrow>
   position (animate f s) =
     clampToLevel (floorLevel (vy (position (movement (min (f_delta f) 0.1) (f_camDir f) s))))
       ((position (movement (min (f_delta f) 0.1) (f_camDir f) s))
          \<lparr>vy := floorLevel (vy (position (movement (min (f_delta f) 0.1) (f_camDir f) s))) + 1.7 +
                 fst (getHeadBob (min (f_delta f) 0.1) s)\<rparr>)"
  by (simp add: animate_def Let_def split_beta)

lemma resolveMove_table:
  "resolveMove wb pos mv =
     (if checkCollision wb (pos\<lparr>vx := vx pos + fst mv\<rparr>)
      then (if checkCollision wb (pos\<lparr>vz := vz pos + snd mv\<rparr>)
            then pos else pos\<lparr>vz := vz pos + snd mv\<rparr>)
      else (if checkCollision wb (pos\<lparr>vx := vx pos + fst mv, vz := vz pos + snd mv\<rparr>)
            then pos\<lparr>vx := vx pos + fst mv\<rparr>
            else pos\<lparr>vx := vx pos + fst mv, vz := vz pos + snd mv\<rparr>))"
  by (simp add: resolveMove_def afterX_def tryX_def Let_def)

lemmas collide_eval = checkCollision_def playerBox_def playerSize_def setFromCenterAndSize_def
  intersectsBox_def num_ge_def V3_def demo_colliders_def

lemma demo_flags: "playing demo" "\<not> paused demo" "\<not> noteOpen demo"
  "\<not> moveForward demo" "\<not> moveBackward demo" "\<not> moveLeft demo" "\<not> moveRight demo"
  by (simp_all add: demo_def step_def startGame_def onLock_def init_def demo_level_def
       showHint_def play_def)

lemma sqrt_25: "sqrt 25 = 5"
  by (rule real_sqrt_unique) simp_all

lemma corner_fields:
  "playing corner" "\<not> paused corner" "\<not> noteOpen corner"
  "moveForward corner" "\<not> moveBackward corner" "\<not> moveLeft corner" "\<not> moveRight corner"
  "\<not> sprinting corner" "bobTime corner = 0"
  "wallBoxes corner = corner_colliders" "position corner = V3 (-17.5) 1.7 4.5"
  by (simp_all add: corner_def step_def onKeyDown_def demo_flags)
     (simp_all add: demo_def step_def startGame_def onLock_def init_def demo_level_def
       showHint_def play_def)

lemma corner_moveVec:
  "moveVec (min (f_delta corner_frame) 0.1) (f_camDir corner_frame) corner = (-0.108, -0.144)"
  by (simp add: moveVec_def direction_def normalizeXZ_def corner_frame_def corner_fields
        V3_def Let_def sqrt_25 power2_eq_square)

lemmas corner_eval = checkCollision_def playerBox_def playerSize_def setFromCenterAndSize_def
  intersectsBox_def num_ge_def V3_def corner_colliders_def wallX_def wallZ_def Let_def

lemma corner_free: "\<not> checkCollision corner_colliders (V3 (-17.5) 1.7 4.5)"
  by (simp add: corner_eval)

lemma frame_position:
  assumes "playing s" "\<not> paused s" "\<not> noteOpen s"
    and "moveRight s \<noteq> moveLeft s \<or> moveForward s \<noteq> moveBackward s"
  shows "position (step (Frame f) s) =
        clampToLevel (floorLevel (vy (position s)))
          ((resolveMove (wallBoxes s) (position s)
              (moveVec (min (f_delta f) 0.1) (f_camDir f) s))
             \<lparr>vy := floorLevel (vy (position s)) + 1.7 +
                    fst (getHeadBob (min (f_delta f) 0.1) s)\<rparr>)"
proof -
  from assms(4) have nz: "sqrt ((fst (direction s))\<^sup>2 + (snd (direction s))\<^sup>2) > 0"
    using direction_nonzero [of s] by blast
  from assms have run: "playing s \<and> \<not> paused s \<and> \<not> noteOpen s" by simp
  show ?thesis
    by (simp add: step_def pos_animate [OF run] pos_movement [OF nz])
qed

text \<open>
  Claim C1, as amended.  In a running frame whose movement flags give a non-zero direction,
  the position is resolved axis by axis and then bounded to the level: the frame ends at
  \<open>resolveMove\<close> of the old position and the move vector, with the height set from the floor
  level and the head bob, clamped to the level's bounds.  \<open>resolveMove\<close> takes the X step and
  undoes it if the player's box then overlaps a collider, after which it takes the Z step
  from there and undoes it likewise: of the old position moved by both components, by the X
  component alone, by the Z component alone and not at all, it returns the first that the
  two tests allow.  When the old position overlaps no collider, neither does the resolved
  one.  When exactly one axis is blocked, the resolved position is the old position moved
  by the whole of the other axis's component.  When both axes are blocked, the resolved
  position is the old position, and the position moved by the Z component alone overlaps a
  collider.
\<close>

theorem per_axis_sliding:
  "(playing s \<and> \<not> paused s \<and> \<not> noteOpen s \<and>
      (moveRight s \<noteq> moveLeft s \<or> moveForward s \<noteq> moveBackward s) \<longrightarrow>
      position (step (Frame f) s) =
        clampToLevel (floorLevel (vy (position s)))
          ((resolveMove (wallBoxes s) (position s)
              (moveVec (min (f_delta f) 0.1) (f_camDir f) s))
             \<lparr>vy := floorLevel (vy (position s)) + 1.7 +
                    fst (getHeadBob (min (f_delta f) 0.1) s)\<rparr>)) \<and>
   resolveMove wb pos mv =
     (if checkCollision wb (pos\<lparr>vx := vx pos + fst mv\<rparr>)
      then (if checkCollision wb (pos\<lparr>vz := vz pos + snd mv\<rparr>)
            then pos else pos\<lparr>vz := vz pos + snd mv\<rparr>)
      else (if checkCollision wb (pos\<lparr>vx := vx pos + fst mv, vz := vz pos + snd mv\<rparr>)
            then pos\<lparr>vx := vx pos + fst mv\<rparr>
            else pos\<lparr>vx := vx pos + fst mv, vz := vz pos + snd mv\<rparr>)) \<and>
   (\<not> checkCollision wb pos \<longrightarrow> \<not> checkCollision wb (resolveMove wb pos mv)) \<and>
   (blockedX wb pos (fst mv) \<and> \<not> blockedZ wb pos mv \<longrightarrow>
      resolveMove wb pos mv = pos\<lparr>vz := vz pos + snd mv\<rparr>) \<and>
   (\<not> blockedX wb pos (fst mv) \<and> blockedZ wb pos mv \<longrightarrow>
      resolveMove wb pos mv = pos\<lparr>vx := vx pos + fst mv\<rparr>) \<and>
   (blockedX wb pos (fst mv) \<and> blockedZ wb pos mv \<longrightarrow>
      resolveMove wb pos mv = pos \<and> checkCollision wb (pos\<lparr>vz := vz pos + snd mv\<rparr>))"
proof (intro conjI impI)
  assume "playing s \<and> \<not> paused s \<and> \<not> noteOpen s \<and>
      (moveRight s \<noteq> moveLeft s \<or> moveForward s \<noteq> moveBackward s)"
  then show "position (step (Frame f) s) =
        clampToLevel (floorLevel (vy (position s)))
          ((resolveMove (wallBoxes s) (position s)
              (moveVec (min (f_delta f) 0.1) (f_camDir f) s))
             \<lparr>vy := floorLevel (vy (position s)) + 1.7 +
                    fst (getHeadBob (min (f_delta f) 0.1) s)\<rparr>)"
    by (intro frame_position) simp_all
next
  show "resolveMove wb pos mv =
     (if checkCollision wb (pos\<lparr>vx := vx pos + fst mv\<rparr>)
      then (if checkCollision wb (pos\<lparr>vz := vz pos + snd mv\<rparr>)
            then pos else pos\<lparr>vz := vz pos + snd mv\<rparr>)
      else (if checkCollision wb (pos\<lparr>vx := vx pos + fst mv, vz := vz pos + snd mv\<rparr>)
            then pos\<lparr>vx := vx pos + fst mv\<rparr>
            else pos\<lparr>vx := vx pos + fst mv, vz := vz pos + snd mv\<rparr>))"
    by (rule resolveMove_table)
next
  assume "\<not> checkCollision wb pos"
  then show "\<not> checkCollision wb (resolveMove wb pos mv)"
    by (simp add: resolveMove_table)
next
  assume "blockedX wb pos (fst mv) \<and> \<not> blockedZ wb pos mv"
  then show "resolveMove wb pos mv = pos\<lparr>vz := vz pos + snd mv\<rparr>"
    by (simp add: resolveMove_cases)
next
  assume "\<not> blockedX wb pos (fst mv) \<and> blockedZ wb pos mv"
  then show "resolveMove wb pos mv = pos\<lparr>vx := vx pos + fst mv\<rparr>"
    by (simp add: resolveMove_cases)
next
  assume h: "blockedX wb pos (fst mv) \<and> blockedZ wb pos mv"
  then show "resolveMove wb pos mv = pos"
    by (simp add: resolveMove_cases)
  from h have "blockedX wb pos (fst mv)" and "blockedZ wb pos mv" by simp_all
  then show "checkCollision wb (pos\<lparr>vz := vz pos + snd mv\<rparr>)"
    by (simp add: blockedZ_unfold)
qed

theorem per_axis_sliding_witness:
  "position (step (Frame corner_frame) (corner\<lparr>position := V3 (-17.5) 1.7 6\<rparr>)) =
     V3 (-17.5) (1.7 + sin 1 * 0.03) 5.856 \<and>
   blockedX corner_colliders (V3 (-17.5) 1.7 6) (-0.108) \<and>
   \<not> blockedZ corner_colliders (V3 (-17.5) 1.7 6) (-0.108, -0.144) \<and>
   resolveMove corner_colliders (V3 (-17.5) 1.7 6) (-0.108, -0.144) = V3 (-17.5) 1.7 5.856 \<and>
   \<not> blockedX demo_colliders (V3 0 1.7 4.5) 0.1 \<and>
   blockedZ demo_colliders (V3 0 1.7 4.5) (0.1, -0.1) \<and>
   resolveMove demo_colliders (V3 0 1.7 4.5) (0.1, -0.1) = V3 0.1 1.7 4.5 \<and>
   blockedX corner_colliders (V3 (-17.5) 1.7 4.5) (-0.108) \<and>
   blockedZ corner_colliders (V3 (-17.5) 1.7 4.5) (-0.108, -0.144) \<and>
   resolveMove corner_colliders (V3 (-17.5) 1.7 4.5) (-0.108, -0.144) = V3 (-17.5) 1.7 4.5 \<and>
   checkCollision corner_colliders (V3 (-17.5) 1.7 4.356) \<and>
   \<not> checkCollision corner_colliders (V3 (-17.5) 1.7 4.5) \<and>
   \<not> checkCollision corner_colliders
       (resolveMove corner_colliders (V3 (-17.5) 1.7 4.5) (-0.108, -0.144))"
proof -
  let ?s = "corner\<lparr>position := V3 (-17.5) 1.7 6\<rparr>"
  have mv: "moveVec (min (f_delta corner_frame) 0.1) (f_camDir corner_frame) ?s = (-0.108, -0.144)"
    using corner_moveVec by (simp add: moveVec_def direction_def)
  note A = per_axis_sliding [where s = ?s and f = corner_frame
            and wb = corner_colliders and pos = "V3 (-17.5) 1.7 6" and mv = "(-0.108, -0.144)"]
  note B = per_axis_sliding [where s = corner and f = corner_frame
            and wb = demo_colliders and pos = "V3 0 1.7 4.5" and mv = "(0.1, -0.1)"]
  note C = per_axis_sliding [where s = corner and f = corner_frame
            and wb = corner_colliders and pos = "V3 (-17.5) 1.7 4.5" and mv = "(-0.108, -0.144)"]
  have ax: "blockedX corner_colliders (V3 (-17.5) 1.7 6) (-0.108)"
    by (simp add: blockedX_unfold corner_eval)
  have az: "\<not> blockedZ corner_colliders (V3 (-17.5) 1.7 6) (-0.108, -0.144)"
    using ax by (simp add: blockedZ_unfold) (simp add: corner_eval)
  have bx: "\<not> blockedX demo_colliders (V3 0 1.7 4.5) 0.1"
    by (simp add: blockedX_unfold collide_eval)
  have bz: "blockedZ demo_colliders (V3 0 1.7 4.5) (0.1, -0.1)"
    by (simp add: blockedZ_unfold blockedX_unfold collide_eval)
  have cx: "blockedX corner_colliders (V3 (-17.5) 1.7 4.5) (-0.108)"
    by (simp add: blockedX_unfold corner_eval)
  have cz: "blockedZ corner_colliders (V3 (-17.5) 1.7 4.5) (-0.108, -0.144)"
    using cx by (simp add: blockedZ_unfold) (simp add: corner_eval)
  have r: "resolveMove corner_colliders (V3 (-17.5) 1.7 6) (-0.108, -0.144) =
             V3 (-17.5) 1.7 5.856"
    using A [THEN conjunct2, THEN conjunct2, THEN conjunct2, THEN conjunct1] ax az
    by (simp add: V3_def)
  have 1: "position (step (Frame corner_frame) ?s) = V3 (-17.5) (1.7 + sin 1 * 0.03) 5.856"
    using A [THEN conjunct1] mv r
    by (simp add: corner_fields getHeadBob_def isMoving_def corner_frame_def Let_def)
       (simp add: V3_def floorLevel_def clampToLevel_def clamp_def)
  have 2: "resolveMove demo_colliders (V3 0 1.7 4.5) (0.1, -0.1) = V3 0.1 1.7 4.5"
    using B [THEN conjunct2, THEN conjunct2, THEN conjunct2, THEN conjunct2, THEN conjunct1]
      bx bz by (simp add: V3_def)
  have 3: "resolveMove corner_colliders (V3 (-17.5) 1.7 4.5) (-0.108, -0.144) =
             V3 (-17.5) 1.7 4.5 \<and>
           checkCollision corner_colliders (V3 (-17.5) 1.7 4.356)"
    using C [THEN conjunct2, THEN conjunct2, THEN conjunct2, THEN conjunct2, THEN conjunct2]
      cx cz by (simp add: V3_def)
  have 4: "\<not> checkCollision corner_colliders
       (resolveMove corner_colliders (V3 (-17.5) 1.7 4.5) (-0.108, -0.144))"
    using C [THEN conjunct2, THEN conjunct2, THEN conjunct1] corner_free by blast
  show ?thesis using 1 r 2 3 4 ax az bx bz cx cz corner_free by simp
qed

text \<open>
  The claim as stated fails in a corner: with the player at (-17.5, 1.7, 4.5) between the
  lobby's left outer wall and the wall to the hallway, the forward key held and the camera
  looking along (-3, 0, -4), a frame of 100 ms gives the move vector (-0.108, -0.144).  The
  old position overlaps no collider, the X step is blocked by the outer wall, and the old
  position moved by the Z component alone overlaps the hallway wall; the Z step is blocked
  too and the frame leaves x and z as they were.
\<close>

theorem per_axis_sliding_counterexample:
  "playing corner \<and> \<not> paused corner \<and> \<not> noteOpen corner \<and>
   moveForward corner \<and> \<not> moveBackward corner \<and>
   wallBoxes corner = corner_colliders \<and> position corner = V3 (-17.5) 1.7 4.5 \<and>
   moveVec (min (f_delta corner_frame) 0.1) (f_camDir corner_frame) corner = (-0.108, -0.144) \<and>
   \<not> checkCollision corner_colliders (V3 (-17.5) 1.7 4.5) \<and>
   blockedX corner_colliders (V3 (-17.5) 1.7 4.5) (-0.108) \<and>
   blockedZ corner_colliders (V3 (-17.5) 1.7 4.5) (-0.108, -0.144) \<and>
   checkCollision corner_colliders ((V3 (-17.5) 1.7 4.5)\<lparr>vz := 4.5 + (-0.144)\<rparr>) \<and>
   checkCollision corner_colliders ((V3 (-17.5) 1.7 4.5)\<lparr>vx := -17.5 + (-0.108)\<rparr>) \<and>
   resolveMove corner_colliders (V3 (-17.5) 1.7 4.5) (-0.108, -0.144) = V3 (-17.5) 1.7 4.5 \<and>
   vx (position (step (Frame corner_frame) corner)) = -17.5 \<and>
   vz (position (step (Frame corner_frame) corner)) = 4.5"
proof -
  have bx: "blockedX corner_colliders (V3 (-17.5) 1.7 4.5) (-0.108)"
    by (simp add: blockedX_unfold corner_eval)
  have bz: "blockedZ corner_colliders (V3 (-17.5) 1.7 4.5) (-0.108, -0.144)"
    using bx by (simp add: blockedZ_unfold) (simp add: corner_eval)
  have cz: "checkCollision corner_colliders ((V3 (-17.5) 1.7 4.5)\<lparr>vz := 4.5 + (-0.144)\<rparr>)"
    by (simp add: corner_eval)
  have cx: "checkCollision corner_colliders ((V3 (-17.5) 1.7 4.5)\<lparr>vx := -17.5 + (-0.108)\<rparr>)"
    by (simp add: corner_eval)
  have r: "resolveMove corner_colliders (V3 (-17.5) 1.7 4.5) (-0.108, -0.144) = V3 (-17.5) 1.7 4.5"
    using bx bz by (simp add: resolveMove_cases)
  have p: "position (step (Frame corner_frame) corner) =
        clampToLevel (floorLevel (vy (position corner)))
          ((resolveMove (wallBoxes corner) (position corner)
              (moveVec (min (f_delta corner_frame) 0.1) (f_camDir corner_frame) corner))
             \<lparr>vy := floorLevel (vy (position corner)) + 1.7 +
                    fst (getHeadBob (min (f_delta corner_frame) 0.1) corner)\<rparr>)"
    by (rule frame_position) (simp_all add: corner_fields)
  note q = p [unfolded corner_fields(10,11) corner_moveVec r]
  have x: "vx (position (step (Frame corner_frame) corner)) = -17.5"
    using q by (simp add: V3_def floorLevel_def clampToLevel_def clamp_def)
  have z: "vz (position (step (Frame corner_frame) corner)) = 4.5"
    using q by (simp add: V3_def floorLevel_def clampToLevel_def clamp_def)
  show ?thesis
    using bx bz cz cx r x z corner_free corner_moveVec by (simp add: corner_fields)
qed

section \<open>The valve counter\<close>

lemma pressE_valve:
  assumes "playing s" "\<not> paused s" "\<not> noteOpen s"
    and "utype (objs s v) = Valve" "interactable (objs s v)"
  shows "step (KeyDown (KeyE (Some v))) s = found (turnValve v s)"
  using assms by (simp add: step_def onKeyDown_def tryInteract_def)

lemma turnValve_flags [simp]:
  "playing (turnValve v s) = playing s" "paused (turnValve v s) = paused s"
  "noteOpen (turnValve v s) = noteOpen s"
  by (simp_all add: turnValve_def Let_def helper_defs)

lemma turnValve_objs [simp]:
  "utype (objs (turnValve v s) w) = utype (objs s w)"
  "interactable (objs (turnValve v s) w) = interactable (objs s w)"
  "turned (objs (turnValve v s) w) \<longleftrightarrow> turned (objs s w) \<or> w = v"
  by (auto simp: turnValve_def Let_def helper_defs)

lemma turnValve_count [simp]:
  "valvesTurned (turnValve v s) = valvesTurned s + (if turned (objs s v) then 0 else 1)"
  by (simp add: turnValve_def Let_def helper_defs)

lemma found_simps [simp]:
  "playing (found s) = playing s" "paused (found s) = paused s" "noteOpen (found s) = noteOpen s"
  "objs (found s) = objs s" "valvesTurned (found s) = valvesTurned s"
  by (simp_all add: found_def)

lemma valves_run:
  assumes "playing s" "\<not> paused s" "\<not> noteOpen s"
    and "\<forall>v \<in> set vs. utype (objs s v) = Valve \<and> interactable (objs s v)"
  shows "valvesTurned (run (map pressE vs) s) =
           valvesTurned s + card {v \<in> set vs. \<not> turned (objs s v)} \<and>
         (\<forall>w. turned (objs (run (map pressE vs) s) w) \<longleftrightarrow> turned (objs s w) \<or> w \<in> set vs)"
  using assms
proof (induction vs arbitrary: s)
  case Nil
  then show ?case by simp
next
  case (Cons v vs)
  let ?s1 = "found (turnValve v s)"
  have st: "step (pressE v) s = ?s1"
    using Cons.prems by (simp add: pressE_def pressE_valve)
  have ih: "valvesTurned (run (map pressE vs) ?s1) =
           valvesTurned ?s1 + card {w \<in> set vs. \<not> turned (objs ?s1 w)} \<and>
         (\<forall>w. turned (objs (run (map pressE vs) ?s1) w) \<longleftrightarrow> turned (objs ?s1 w) \<or> w \<in> set vs)"
    using Cons.prems by (intro Cons.IH) simp_all
  have set1: "{w \<in> set vs. \<not> turned (objs ?s1 w)} = {w \<in> set vs. \<not> turned (objs s w)} - {v}"
    by auto
  have "card {w \<in> set (v # vs). \<not> turned (objs s w)} =
      (if turned (objs s v) then 0 else 1) + card ({w \<in> set vs. \<not> turned (objs s w)} - {v})"
  proof (cases "turned (objs s v)")
    case True
    then have "{w \<in> set (v # vs). \<not> turned (objs s w)} = {w \<in> set vs. \<not> turned (objs s w)} - {v}"
      by auto
    with True show ?thesis by simp
  next
    case False
    then have "{w \<in> set (v # vs). \<not> turned (objs s w)} = insert v {w \<in> set vs. \<not> turned (objs s w)}"
      by auto
    with False show ?thesis by (simp add: card.insert_remove)
  qed
  then show ?case using ih st set1 by auto
qed


text \<open>
  Claim C3.  While the game runs unpaused with no note open, after any sequence of
  interacts on valves the counter \<open>valvesTurned\<close> has grown by the number of distinct valves
  in the sequence that were unturned before; from the initial state, where the counter is 0
  and every valve is unturned, it equals the number of distinct valves interacted with.  Each
  of them ends turned.  An interact on an unturned valve marks it turned and adds exactly one;
  an interact on a turned valve changes neither the counter nor the flag.
\<close>

theorem valve_counter:
  assumes "playing s" and "\<not> paused s" and "\<not> noteOpen s"
    and "\<forall>v \<in> set vs. utype (objs s v) = Valve \<and> interactable (objs s v)"
  shows "(valvesTurned s = 0 \<and> (\<forall>v \<in> set vs. \<not> turned (objs s v)) \<longrightarrow>
            valvesTurned (run (map pressE vs) s) = card (set vs)) \<and>
         valvesTurned (run (map pressE vs) s) =
            valvesTurned s + card {v \<in> set vs. \<not> turned (objs s v)} \<and>
         (\<forall>v \<in> set vs.
            turned (objs (run (map pressE vs) s) v) \<and>
            (\<not> turned (objs s v) \<longrightarrow>
               valvesTurned (step (pressE v) s) = valvesTurned s + 1 \<and>
               turned (objs (step (pressE v) s) v)) \<and>
            (turned (objs s v) \<longrightarrow>
               valvesTurned (step (pressE v) s) = valvesTurned s \<and>
               turned (objs (step (pressE v) s) v)))"
proof -
  note R = valves_run [OF assms]
  have a: "valvesTurned s = 0 \<and> (\<forall>v \<in> set vs. \<not> turned (objs s v)) \<longrightarrow>
            valvesTurned (run (map pressE vs) s) = card (set vs)"
  proof
    assume h: "valvesTurned s = 0 \<and> (\<forall>v \<in> set vs. \<not> turned (objs s v))"
    then have "{v \<in> set vs. \<not> turned (objs s v)} = set vs" by auto
    with R h show "valvesTurned (run (map pressE vs) s) = card (set vs)" by simp
  qed
  have c: "\<forall>v \<in> set vs.
            turned (objs (run (map pressE vs) s) v) \<and>
            (\<not> turned (objs s v) \<longrightarrow>
               valvesTurned (step (pressE v) s) = valvesTurned s + 1 \<and>
               turned (objs (step (pressE v) s) v)) \<and>
            (turned (objs s v) \<longrightarrow>
               valvesTurned (step (pressE v) s) = valvesTurned s \<and>
               turned (objs (step (pressE v) s) v))"
  proof
    fix v assume v: "v \<in> set vs"
    then have "step (pressE v) s = found (turnValve v s)"
      using assms by (simp add: pressE_def pressE_valve)
    with R v show "turned (objs (run (map pressE vs) s) v) \<and>
            (\<not> turned (objs s v) \<longrightarrow>
               valvesTurned (step (pressE v) s) = valvesTurned s + 1 \<and>
               turned (objs (step (pressE v) s) v)) \<and>
            (turned (objs s v) \<longrightarrow>
               valvesTurned (step (pressE v) s) = valvesTurned s \<and>
               turned (objs (step (pressE v) s) v))"
      by simp
  qed
  from a R c show ?thesis by blast
qed

lemma demo_valves:
  "utype (demo_objs 5) = Valve" "utype (demo_objs 6) = Valve" "utype (demo_objs 7) = Valve"
  "interactable (demo_objs 5)" "interactable (demo_objs 6)" "interactable (demo_objs 7)"
  "\<not> turned (demo_objs 5)" "\<not> turned (demo_objs 6)" "\<not> turned (demo_objs 7)"
  by (simp_all add: demo_objs_def mk_def blank_def)

lemma demo_valvesTurned: "valvesTurned demo = 0"
  by (simp add: demo_def step_def startGame_def onLock_def init_def demo_level_def
       showHint_def play_def)

theorem valve_counter_witness:
  "valvesTurned (run (map pressE [5, 6, 5, 7, 6, 5]) demo) = 3 \<and>
   turned (objs (run (map pressE [5, 6, 5, 7, 6, 5]) demo) 7) \<and>
   valvesTurned (step (pressE 5) demo) = 1 \<and>
   valvesTurned (step (pressE 5) (step (pressE 5) demo)) = 1"
proof -
  note A = valve_counter [where s = demo and vs = "[5, 6, 5, 7, 6, 5]"]
  have pre: "playing demo" "\<not> paused demo" "\<not> noteOpen demo"
     "\<forall>v \<in> set [5, 6, 5, 7, 6, 5]. utype (objs demo v) = Valve \<and> interactable (objs demo v)"
    by (simp_all add: demo_flags demo_eval demo_valves)
  have s5: "step (pressE 5) demo = found (turnValve 5 demo)"
    using pre by (simp add: pressE_def pressE_valve)
  have pre2: "playing (step (pressE 5) demo)" "\<not> paused (step (pressE 5) demo)"
     "\<not> noteOpen (step (pressE 5) demo)"
     "\<forall>v \<in> set [5]. utype (objs (step (pressE 5) demo) v) = Valve \<and>
         interactable (objs (step (pressE 5) demo) v)"
    using pre by (simp_all add: s5)
  note B = valve_counter [where s = "step (pressE 5) demo" and vs = "[5]", OF pre2]
  have t: "turned (objs (step (pressE 5) demo) 5)" by (simp add: s5)
  have "set [5, 6, 5, 7, 6, 5::nat] = {5, 6, 7}" by auto
  then have c: "card (set [5, 6, 5, 7, 6, 5::nat]) = 3" by simp
  have 1: "valvesTurned (run (map pressE [5, 6, 5, 7, 6, 5]) demo) = 3"
    using A [OF pre, THEN conjunct1] c by (simp add: demo_valvesTurned demo_eval demo_valves)
  have 2: "turned (objs (run (map pressE [5, 6, 5, 7, 6, 5]) demo) 7)"
    using A [OF pre, THEN conjunct2, THEN conjunct2] by simp
  have 3: "valvesTurned (step (pressE 5) demo) = 1"
    using A [OF pre, THEN conjunct2, THEN conjunct2]
    by (simp add: demo_valvesTurned demo_eval demo_valves)
  have 4: "valvesTurned (step (pressE 5) (step (pressE 5) demo)) = 1"
    using B [THEN conjunct2, THEN conjunct2] t 3 by simp
  show ?thesis using 1 2 3 4 by simp
qed


section \<open>One-way transitions\<close>

lemma mono_flags_refl [simp]: "mono_flags s s"
  by (simp add: mono_flags_def)

lemma mono_flags_trans: "mono_flags s s' \<Longrightarrow> mono_flags s' s'' \<Longrightarrow> mono_flags s s''"
  by (simp add: mono_flags_def)

lemma mono_tryInteract: "mono_flags s (tryInteract hit s)"
  by (simp add: mono_flags_def tryInteract_def helper_defs turnValve_def openDoor_def
       openSecurityDoor_def Let_def split: option.splits kind.splits)

lemma mono_run_task: "mono_flags s (run_task k s)"
  by (cases k)
     (simp_all add: run_task_def mono_flags_def valveExitTimeout_def escapeTeleport_def
        secDoorTimeout_def animDoor_def animSec_def animExit_def escapeTimeout_def
        cinStep2_def cinStep3_def cinStep4_def cinStep5_def cinStep6_def cinStep7_def
        helper_defs Let_def split: option.splits)

lemma mono_run_pending: "mono_flags s (run_pending k s)"
proof -
  have "mono_flags (s\<lparr>pending := take k (pending s) @ drop (Suc k) (pending s)\<rparr>)
          (run_task (snd (pending s ! k)) (s\<lparr>pending := take k (pending s) @ drop (Suc k) (pending s)\<rparr>))"
    by (rule mono_run_task)
  then show ?thesis by (simp add: run_pending_def mono_flags_def)
qed

lemma objs_animate_parts [simp]:
  "objs (movement d c s) = objs s" "objs (snd (getHeadBob d s)) = objs s"
  "objs (rooftopTrigger fl s) = objs s" "objs (batteryDrain d s) = objs s"
  "objs (updateSystems d r s) = objs s"
  by (simp_all add: movement_def getHeadBob_def rooftopTrigger_def batteryDrain_def
       updateSystems_def triggerChapter2Cinematic_def helper_defs Let_def
       split: option.splits prod.splits)

lemma hasKeycard_animate_parts [simp]:
  "hasKeycard (movement d c s) = hasKeycard s" "hasKeycard (snd (getHeadBob d s)) = hasKeycard s"
  "hasKeycard (rooftopTrigger fl s) = hasKeycard s" "hasKeycard (batteryDrain d s) = hasKeycard s"
  "hasKeycard (updateSystems d r s) = hasKeycard s"
  by (simp_all add: movement_def getHeadBob_def rooftopTrigger_def batteryDrain_def
       updateSystems_def triggerChapter2Cinematic_def helper_defs Let_def
       split: option.splits prod.splits)

lemma hasKeycard10_animate_parts [simp]:
  "hasKeycard10 (movement d c s) = hasKeycard10 s"
  "hasKeycard10 (snd (getHeadBob d s)) = hasKeycard10 s"
  "hasKeycard10 (rooftopTrigger fl s) = hasKeycard10 s"
  "hasKeycard10 (batteryDrain d s) = hasKeycard10 s"
  "hasKeycard10 (updateSystems d r s) = hasKeycard10 s"
  by (simp_all add: movement_def getHeadBob_def rooftopTrigger_def batteryDrain_def
       updateSystems_def triggerChapter2Cinematic_def helper_defs Let_def
       split: option.splits prod.splits)

lemma mono_animate: "mono_flags s (animate f s)"
  by (simp add: mono_flags_def animate_def Let_def split_beta)

lemma mono_step: "mono_flags s (step e s)"
proof (cases e)
  case (KeyDown k)
  then show ?thesis
    by (cases k) (simp_all add: step_def onKeyDown_def mono_tryInteract,
                  simp_all add: mono_flags_def toggleFlashlight_def helper_defs)
next
  case (KeyUp k)
  then show ?thesis by (cases k) (simp_all add: step_def onKeyUp_def mono_flags_def)
next
  case BtnCloseNote
  then show ?thesis
    by (simp add: step_def closeNote_def mono_flags_def triggerChapter2Cinematic_def
         helper_defs Let_def)
next
  case (Frame f)
  then show ?thesis by (simp add: step_def mono_animate)
next
  case (Run k)
  then show ?thesis by (simp add: step_def mono_run_pending)
qed (simp_all add: step_def mono_flags_def startGame_def resumeGame_def quitToMenu_def
       onLock_def onUnlock_def helper_defs)

lemma mono_run: "mono_flags s (run es s)"
proof (induction es arbitrary: s)
  case Nil
  show ?case by simp
next
  case (Cons e es)
  show ?case using mono_flags_trans [OF mono_step Cons.IH] by simp
qed


text \<open>
  Claim C4.  Whatever events follow, an \<open>opened\<close> flag, a \<open>turned\<close> flag, and either
  keycard flag that is set stays set.  Each transition is guarded against re-entry: on an
  opened door \<open>openDoor\<close> and \<open>openSecurityDoor\<close> return at once, an interact on an opened
  security or escape door changes nothing, \<open>turnValve\<close> on a turned valve changes nothing, and
  an interact on a picked-up keycard (no longer interactable) changes nothing.
\<close>

theorem transitions_one_way:
  "(opened (objs s i) \<longrightarrow> opened (objs (run es s) i)) \<and>
   (turned (objs s i) \<longrightarrow> turned (objs (run es s) i)) \<and>
   (hasKeycard s \<longrightarrow> hasKeycard (run es s)) \<and>
   (hasKeycard10 s \<longrightarrow> hasKeycard10 (run es s)) \<and>
   (opened (objs s i) \<longrightarrow> openDoor i s = s \<and> openSecurityDoor i s = s) \<and>
   (opened (objs s i) \<and> (utype (objs s i) = Locked_door \<or> utype (objs s i) = Escape_door) \<longrightarrow>
      tryInteract (Some i) s = s) \<and>
   (turned (objs s i) \<longrightarrow> turnValve i s = s) \<and>
   (\<not> interactable (objs s i) \<longrightarrow> tryInteract (Some i) s = s)"
proof -
  have m: "mono_flags s (run es s)" by (rule mono_run)
  have a: "(opened (objs s i) \<longrightarrow> opened (objs (run es s) i)) \<and>
   (turned (objs s i) \<longrightarrow> turned (objs (run es s) i)) \<and>
   (hasKeycard s \<longrightarrow> hasKeycard (run es s)) \<and>
   (hasKeycard10 s \<longrightarrow> hasKeycard10 (run es s))"
    using m by (simp add: mono_flags_def)
  have b: "opened (objs s i) \<longrightarrow> openDoor i s = s \<and> openSecurityDoor i s = s"
    by (simp add: openDoor_def openSecurityDoor_def)
  have c: "opened (objs s i) \<and> (utype (objs s i) = Locked_door \<or> utype (objs s i) = Escape_door) \<longrightarrow>
      tryInteract (Some i) s = s"
    by (auto simp: tryInteract_def)
  have d: "turned (objs s i) \<longrightarrow> turnValve i s = s"
    by (simp add: turnValve_def)
  have e: "\<not> interactable (objs s i) \<longrightarrow> tryInteract (Some i) s = s"
    by (simp add: tryInteract_def)
  from a b c d e show ?thesis by blast
qed


lemmas interact_eval = pressE_def step_def onKeyDown_def tryInteract_def openDoor_def
  openSecurityDoor_def turnValve_def helper_defs Let_def

lemma demo_full:
  "demo = (init demo_level)\<lparr>playing := True, trace := [Cue StartAmbience, Hint Hint_LegacyHQ]\<rparr>"
  by (simp add: demo_def step_def startGame_def onLock_def init_def showHint_def play_def)

lemma init_demo_fields:
  "playing (init demo_level) = False" "paused (init demo_level) = False"
  "noteOpen (init demo_level) = False" "objs (init demo_level) = demo_objs"
  "hasKeycard (init demo_level) = False" "hasKeycard10 (init demo_level) = False"
  "valvesTurned (init demo_level) = 0" "now (init demo_level) = 0"
  "finalTerminalRead (init demo_level) = False" "collectiblesFound (init demo_level) = 0"
  by (simp_all add: init_def demo_level_def)

lemma demo_kinds:
  "utype (demo_objs 0) = Door" "utype (demo_objs (Suc 0)) = Locked_door"
  "utype (demo_objs 2) = Keycard" "utype (demo_objs 3) = Hatch"
  "utype (demo_objs 4) = Final_terminal" "utype (demo_objs 5) = Valve"
  "utype (demo_objs 8) = Keycard_10" "utype (demo_objs 9) = Escape_door"
  "utype (demo_objs 10) = Note"
  "interactable (demo_objs 0)" "interactable (demo_objs (Suc 0))" "interactable (demo_objs 2)"
  "\<not> interactable (demo_objs 3)" "interactable (demo_objs 4)" "interactable (demo_objs 5)"
  "interactable (demo_objs 8)" "interactable (demo_objs 9)" "interactable (demo_objs 10)"
  "\<not> opened (demo_objs 0)" "\<not> opened (demo_objs (Suc 0))" "\<not> opened (demo_objs 9)"
  "\<not> turned (demo_objs 5)"
  by (simp_all add: demo_objs_def mk_def blank_def)

lemma demo_solved_flags:
  "opened (objs demo_solved 0)" "turned (objs demo_solved 5)" "hasKeycard demo_solved" "hasKeycard10 demo_solved"
  "opened (objs demo_solved 1)" "utype (objs demo_solved 1) = Locked_door" "\<not> interactable (objs demo_solved 2)"
  "opened (objs demo_solved 9)" "utype (objs demo_solved 9) = Escape_door"
  by (simp_all add: demo_solved_def demo_full interact_eval init_demo_fields demo_kinds)


theorem transitions_one_way_witness:
  "opened (objs (run (map pressE [0, 1, 9, 5, 2] @ [BtnQuit, BtnPlay, Clock 9000, Run 0]) demo_solved) 0) \<and>
   opened (objs (run (map pressE [0, 1, 9, 5, 2] @ [BtnQuit, BtnPlay, Clock 9000, Run 0]) demo_solved) 1) \<and>
   opened (objs (run (map pressE [0, 1, 9, 5, 2] @ [BtnQuit, BtnPlay, Clock 9000, Run 0]) demo_solved) 9) \<and>
   turned (objs (run (map pressE [0, 1, 9, 5, 2] @ [BtnQuit, BtnPlay, Clock 9000, Run 0]) demo_solved) 5) \<and>
   hasKeycard (run (map pressE [0, 1, 9, 5, 2] @ [BtnQuit, BtnPlay, Clock 9000, Run 0]) demo_solved) \<and>
   hasKeycard10 (run (map pressE [0, 1, 9, 5, 2] @ [BtnQuit, BtnPlay, Clock 9000, Run 0]) demo_solved) \<and>
   openDoor 0 demo_solved = demo_solved \<and> openSecurityDoor 1 demo_solved = demo_solved \<and>
   tryInteract (Some 1) demo_solved = demo_solved \<and> tryInteract (Some 9) demo_solved = demo_solved \<and>
   turnValve 5 demo_solved = demo_solved \<and> tryInteract (Some 2) demo_solved = demo_solved"
proof -
  let ?es = "map pressE [0, 1, 9, 5, 2] @ [BtnQuit, BtnPlay, Clock 9000, Run 0]"
  note A = transitions_one_way [where s = demo_solved and es = ?es and i = 0]
  note B = transitions_one_way [where s = demo_solved and es = ?es and i = 1]
  note C = transitions_one_way [where s = demo_solved and es = ?es and i = 9]
  note D = transitions_one_way [where s = demo_solved and es = ?es and i = 5]
  note E = transitions_one_way [where s = demo_solved and es = ?es and i = 2]
  have 1: "opened (objs (run ?es demo_solved) 0) \<and> openDoor 0 demo_solved = demo_solved"
    using A demo_solved_flags(1) by blast
  have 2: "opened (objs (run ?es demo_solved) 1) \<and> openSecurityDoor 1 demo_solved = demo_solved \<and> tryInteract (Some 1) demo_solved = demo_solved"
    using B demo_solved_flags(5,6) by blast
  have 3: "opened (objs (run ?es demo_solved) 9) \<and> tryInteract (Some 9) demo_solved = demo_solved"
    using C demo_solved_flags(8,9) by blast
  have 4: "turned (objs (run ?es demo_solved) 5) \<and> turnValve 5 demo_solved = demo_solved"
    using D demo_solved_flags(2) by blast
  have 5: "hasKeycard (run ?es demo_solved) \<and> hasKeycard10 (run ?es demo_solved) \<and> tryInteract (Some 2) demo_solved = demo_solved"
    using E demo_solved_flags(3,4,7) by blast
  from 1 2 3 4 5 show ?thesis by blast
qed


section \<open>The security door\<close>

lemma denied:
  assumes "playing s" "\<not> paused s" "\<not> noteOpen s"
    and "utype (objs s d) = Locked_door" "interactable (objs s d)" "\<not> opened (objs s d)"
    and "\<not> hasKeycard s"
  shows "step (pressE d) s =
           s\<lparr>collectiblesFound := collectiblesFound s + 1,
             trace := trace s @ [Hint Hint_LockedNeedCard, Cue (PlayTone 150 0.15 0.1)]\<rparr>"
  using assms by (simp add: interact_eval)

lemma granted:
  assumes "playing s" "\<not> paused s" "\<not> noteOpen s"
    and "utype (objs s d) = Locked_door" "interactable (objs s d)" "\<not> opened (objs s d)"
    and "hasKeycard s"
  shows "step (pressE d) s =
           s\<lparr>collectiblesFound := collectiblesFound s + 1,
             objs := (objs s)(d := (objs s d)\<lparr>opened := True, indicGreen := True\<rparr>),
             trace := trace s @ [Cue PlayTerminal, Hint Hint_AccessGranted],
             pending := pending s @ [(now s + 1500, SecDoorTimeout d)]\<rparr>"
  using assms by (simp add: interact_eval)

lemma pressE_opened_noop:
  assumes "utype (objs s d) = Locked_door" "opened (objs s d)"
  shows "step (pressE d) s = s"
  using assms by (simp add: pressE_def step_def onKeyDown_def tryInteract_def)

lemma pressE_opened_forever:
  assumes "utype (objs s d) = Locked_door" "opened (objs s d)"
  shows "step (pressE d) (run es s) = run es s"
proof -
  have "mono_flags s (run es s)" by (rule mono_run)
  with assms have "utype (objs (run es s) d) = Locked_door" "opened (objs (run es s) d)"
    by (simp_all add: mono_flags_def)
  then show ?thesis by (rule pressE_opened_noop)
qed

lemma slide:
  assumes "doorColliderLeft (objs s d) = Some l" "doorColliderRight (objs s d) = Some r"
    and "l < length (wallBoxes s)" "r < length (wallBoxes s)"
    and "pending s = ps @ [(due, SecDoorTimeout d)]" "n = length ps"
    and "due \<le> t1" "now s \<le> t1" "t1 + 3000 \<le> t2"
  shows "wallBoxes (run [Clock t1, Run n, Clock t2, Run n] s) ! l = makeEmpty \<and>
         wallBoxes (run [Clock t1, Run n, Clock t2, Run n] s) ! r = makeEmpty \<and>
         uncaught (run [Clock t1, Run n, Clock t2, Run n] s) = uncaught s \<and>
         objs (run [Clock t1, Run n, Clock t2, Run n] s) = objs s"
proof -
  let ?a = "s\<lparr>now := t1, pending := ps @ [(t1, AnimSec d t1)], trace := trace s @ [Cue PlayDoorSlam]\<rparr>"
  have a: "run [Clock t1, Run n] s = ?a"
    using assms by (simp add: step_def run_pending_def run_task_def secDoorTimeout_def
        helper_defs Let_def max_def)
  let ?b = "?a\<lparr>now := t2, pending := ps\<rparr>"
  have t: "\<not> min (real (t2 - t1) / 3000) 1 < 1" using assms(9) by simp
  obtain wb1 wb2 where w: "retract (Some l) (wallBoxes s) = Some wb1" "retract (Some r) wb1 = Some wb2"
     "length wb2 = length (wallBoxes s)" "wb2 ! l = makeEmpty" "wb2 ! r = makeEmpty"
    using retract_two [OF assms(3,4)] by blast
  have b: "run [Clock t2, Run n] ?a =
      ?b\<lparr>wallBoxes := wb2, trace := trace s @ [Cue PlayDoorSlam, Hint Hint_DarknessDeepens]\<rparr>"
    using assms t w by (simp add: step_def run_pending_def run_task_def animSec_def
        helper_defs Let_def max_def)
  have "run [Clock t1, Run n, Clock t2, Run n] s = run [Clock t2, Run n] (run [Clock t1, Run n] s)"
    by simp
  then show ?thesis using w unfolding a b by simp
qed


text \<open>
  Claim C5.  For a security door that is interactable and not yet opened, while the game
  runs unpaused with no note open: an interact without the keycard flag leaves every
  interactable as it was, the door still not opened, appends the hint and the 150 Hz tone,
  and raises nothing.  With the keycard flag, the interact sets the door's \<open>opened\<close> flag and
  turns its indicator green, schedules the slide, and after any further events an interact
  on the door changes nothing; once the 1.5 s delay and the 3 s slide have run, both
  colliders the door refers to are empty and never intersect the player's box again.
\<close>

theorem security_door_keycard:
  assumes "playing s" and "\<not> paused s" and "\<not> noteOpen s"
    and "utype (objs s d) = Locked_door" and "interactable (objs s d)" and "\<not> opened (objs s d)"
  shows
   "(\<not> hasKeycard s \<longrightarrow>
       step (pressE d) s =
         s\<lparr>collectiblesFound := collectiblesFound s + 1,
           trace := trace s @ [Hint Hint_LockedNeedCard, Cue (PlayTone 150 0.15 0.1)]\<rparr> \<and>
       objs (step (pressE d) s) = objs s \<and> \<not> opened (objs (step (pressE d) s) d) \<and>
       uncaught (step (pressE d) s) = uncaught s) \<and>
    (hasKeycard s \<longrightarrow>
       opened (objs (step (pressE d) s) d) \<and> indicGreen (objs (step (pressE d) s) d) \<and>
       pending (step (pressE d) s) = pending s @ [(now s + 1500, SecDoorTimeout d)] \<and>
       (\<forall>es. step (pressE d) (run es (step (pressE d) s)) = run es (step (pressE d) s))) \<and>
    (hasKeycard s \<and> doorColliderLeft (objs s d) = Some l \<and> doorColliderRight (objs s d) = Some r \<and>
     l < length (wallBoxes s) \<and> r < length (wallBoxes s) \<and>
     now s + 1500 \<le> t1 \<and> t1 + 3000 \<le> t2 \<longrightarrow>
       (let s' = run [pressE d, Clock t1, Run (length (pending s)),
                      Clock t2, Run (length (pending s))] s
        in wallBoxes s' ! l = makeEmpty \<and> wallBoxes s' ! r = makeEmpty \<and>
           uncaught s' = uncaught s \<and>
           (\<forall>es p. \<not> intersectsBox (playerBox p) (wallBoxes (run es s') ! l) \<and>
                   \<not> intersectsBox (playerBox p) (wallBoxes (run es s') ! r))))"
proof (intro conjI impI)
  assume k: "\<not> hasKeycard s"
  note D = denied [OF assms k]
  show "step (pressE d) s =
         s\<lparr>collectiblesFound := collectiblesFound s + 1,
           trace := trace s @ [Hint Hint_LockedNeedCard, Cue (PlayTone 150 0.15 0.1)]\<rparr>"
    by (rule D)
  show "objs (step (pressE d) s) = objs s" by (simp add: D)
  show "\<not> opened (objs (step (pressE d) s) d)" using assms(6) by (simp add: D)
  show "uncaught (step (pressE d) s) = uncaught s" by (simp add: D)
next
  assume k: "hasKeycard s"
  note G = granted [OF assms k]
  show "opened (objs (step (pressE d) s) d)" by (simp add: G)
  show "indicGreen (objs (step (pressE d) s) d)" by (simp add: G)
  show "pending (step (pressE d) s) = pending s @ [(now s + 1500, SecDoorTimeout d)]"
    by (simp add: G)
  show "\<forall>es. step (pressE d) (run es (step (pressE d) s)) = run es (step (pressE d) s)"
    using assms(4) by (intro allI pressE_opened_forever) (simp_all add: G)
next
  assume h: "hasKeycard s \<and> doorColliderLeft (objs s d) = Some l \<and>
     doorColliderRight (objs s d) = Some r \<and>
     l < length (wallBoxes s) \<and> r < length (wallBoxes s) \<and>
     now s + 1500 \<le> t1 \<and> t1 + 3000 \<le> t2"
  then have k: "hasKeycard s" by simp
  note G = granted [OF assms k]
  let ?s1 = "step (pressE d) s"
  let ?es = "[Clock t1, Run (length (pending s)), Clock t2, Run (length (pending s))]"
  have S: "wallBoxes (run ?es ?s1) ! l = makeEmpty \<and> wallBoxes (run ?es ?s1) ! r = makeEmpty \<and>
           uncaught (run ?es ?s1) = uncaught ?s1 \<and> objs (run ?es ?s1) = objs ?s1"
    using h by (intro slide [where ps = "pending s" and due = "now s + 1500"]) (simp_all add: G)
  have len: "length (wallBoxes (run ?es ?s1)) = length (wallBoxes s)"
    using keeps_run [of 0 ?s1 ?es] by (simp add: keeps_def G)
  define s' where "s' = run (pressE d # ?es) s"
  have r: "s' = run ?es ?s1" by (simp add: s'_def)
  have e: "wallBoxes s' ! l = makeEmpty" "wallBoxes s' ! r = makeEmpty"
    "l < length (wallBoxes s')" "r < length (wallBoxes s')"
    using S len h unfolding r by simp_all
  have u: "uncaught s' = uncaught s" using S unfolding r by (simp add: G)
  have f: "\<forall>es p. \<not> intersectsBox (playerBox p) (wallBoxes (run es s') ! l) \<and>
                   \<not> intersectsBox (playerBox p) (wallBoxes (run es s') ! r)"
    using empty_forever [OF e(3) e(1)] empty_forever [OF e(4) e(2)] by blast
  show "let s' = run [pressE d, Clock t1, Run (length (pending s)),
                      Clock t2, Run (length (pending s))] s
        in wallBoxes s' ! l = makeEmpty \<and> wallBoxes s' ! r = makeEmpty \<and>
           uncaught s' = uncaught s \<and>
           (\<forall>es p. \<not> intersectsBox (playerBox p) (wallBoxes (run es s') ! l) \<and>
                   \<not> intersectsBox (playerBox p) (wallBoxes (run es s') ! r))"
    unfolding Let_def s'_def [symmetric] using e u f by blast
qed


lemma demo_pre:
  "playing demo" "\<not> paused demo" "\<not> noteOpen demo" "utype (objs demo 1) = Locked_door"
  "interactable (objs demo 1)" "\<not> opened (objs demo 1)" "\<not> hasKeycard demo"
  by (simp_all add: demo_full init_demo_fields demo_kinds)

lemma demo_carded_pre:
  "playing demo_carded" "\<not> paused demo_carded" "\<not> noteOpen demo_carded"
  "utype (objs demo_carded 1) = Locked_door"
  "interactable (objs demo_carded 1)" "\<not> opened (objs demo_carded 1)"
  by (simp_all add: demo_carded_def demo_full interact_eval init_demo_fields demo_kinds)

lemma demo_carded_more:
  "hasKeycard demo_carded" "doorColliderLeft (objs demo_carded 1) = Some 2"
  "doorColliderRight (objs demo_carded 1) = Some 3" "length (wallBoxes demo_carded) = 7"
  "now demo_carded = 0" "pending demo_carded = []"
  by (simp_all add: demo_carded_def demo_full interact_eval init_demo_fields demo_kinds
       demo_objs_eval init_def demo_level_def)

theorem security_door_keycard_witness:
  "\<not> opened (objs (step (pressE 1) demo) 1) \<and>
   trace (step (pressE 1) demo) =
     trace demo @ [Hint Hint_LockedNeedCard, Cue (PlayTone 150 0.15 0.1)] \<and>
   uncaught (step (pressE 1) demo) = uncaught demo \<and>
   opened (objs (step (pressE 1) demo_carded) 1) \<and>
   indicGreen (objs (step (pressE 1) demo_carded) 1) \<and>
   step (pressE 1) (run [Frame demo_frame, pressE 1] (step (pressE 1) demo_carded)) =
     run [Frame demo_frame, pressE 1] (step (pressE 1) demo_carded) \<and>
   wallBoxes (run [pressE 1, Clock 1500, Run 0, Clock 4500, Run 0] demo_carded) ! 2 = makeEmpty \<and>
   wallBoxes (run [pressE 1, Clock 1500, Run 0, Clock 4500, Run 0] demo_carded) ! 3 = makeEmpty"
proof -
  note A = security_door_keycard [OF demo_pre(1-6), where l = 2 and r = 3 and ?t1.0 = 1500
             and ?t2.0 = 4500]
  note B = security_door_keycard [OF demo_carded_pre, where l = 2 and r = 3 and ?t1.0 = 1500
             and ?t2.0 = 4500]
  have 1: "\<not> opened (objs (step (pressE 1) demo) 1) \<and>
     trace (step (pressE 1) demo) =
       trace demo @ [Hint Hint_LockedNeedCard, Cue (PlayTone 150 0.15 0.1)] \<and>
     uncaught (step (pressE 1) demo) = uncaught demo"
    using A [THEN conjunct1] demo_pre(6,7) by simp
  have 2: "opened (objs (step (pressE 1) demo_carded) 1) \<and>
     indicGreen (objs (step (pressE 1) demo_carded) 1) \<and>
     step (pressE 1) (run [Frame demo_frame, pressE 1] (step (pressE 1) demo_carded)) =
       run [Frame demo_frame, pressE 1] (step (pressE 1) demo_carded)"
    using B [THEN conjunct2, THEN conjunct1] demo_carded_more(1) by blast
  have 3: "wallBoxes (run [pressE 1, Clock 1500, Run 0, Clock 4500, Run 0] demo_carded) ! 2 = makeEmpty \<and>
     wallBoxes (run [pressE 1, Clock 1500, Run 0, Clock 4500, Run 0] demo_carded) ! 3 = makeEmpty"
    using B [THEN conjunct2, THEN conjunct2] demo_carded_more
    by (simp add: Let_def)
  from 1 2 3 show ?thesis by blast
qed


section \<open>The collectibles counter\<close>

lemma cf_tryInteract:
  "collectiblesFound (tryInteract hit s) =
     collectiblesFound s +
       (case hit of
          None \<Rightarrow> 0
        | Some obj \<Rightarrow>
            if paused s \<or> noteOpen s \<or> \<not> interactable (objs s obj) then 0
            else if utype (objs s obj) = Hatch \<and> \<not> finalTerminalRead s then 0
            else if (utype (objs s obj) = Escape_door \<or> utype (objs s obj) = Locked_door) \<and>
                    opened (objs s obj) then 0
            else 1)"
  by (simp add: tryInteract_def helper_defs turnValve_def openDoor_def
       openSecurityDoor_def Let_def split: option.splits kind.splits)

lemma cf_run_task: "collectiblesFound (run_task k s) = collectiblesFound s"
  by (cases k)
     (simp_all add: run_task_def valveExitTimeout_def escapeTeleport_def
        secDoorTimeout_def animDoor_def animSec_def animExit_def escapeTimeout_def
        cinStep2_def cinStep3_def cinStep4_def cinStep5_def cinStep6_def cinStep7_def
        helper_defs Let_def split: option.splits)

lemma cf_run_pending: "collectiblesFound (run_pending k s) = collectiblesFound s"
  by (simp add: run_pending_def cf_run_task)

lemma cf_animate_parts [simp]:
  "collectiblesFound (movement d c s) = collectiblesFound s"
  "collectiblesFound (snd (getHeadBob d s)) = collectiblesFound s"
  "collectiblesFound (rooftopTrigger fl s) = collectiblesFound s"
  "collectiblesFound (batteryDrain d s) = collectiblesFound s"
  "collectiblesFound (updateSystems d r s) = collectiblesFound s"
  by (simp_all add: movement_def getHeadBob_def rooftopTrigger_def batteryDrain_def
       updateSystems_def triggerChapter2Cinematic_def helper_defs Let_def
       split: option.splits prod.splits)

lemma cf_animate: "collectiblesFound (animate f s) = collectiblesFound s"
  by (simp add: animate_def Let_def split_beta)

lemma cf_step_other:
  assumes "\<forall>hit. e \<noteq> KeyDown (KeyE hit)"
  shows "collectiblesFound (step e s) = collectiblesFound s"
proof (cases e)
  case (KeyDown k)
  with assms show ?thesis
    by (cases k) (simp_all add: step_def onKeyDown_def toggleFlashlight_def helper_defs)
next
  case (KeyUp k)
  then show ?thesis by (cases k) (simp_all add: step_def onKeyUp_def)
next
  case BtnCloseNote
  then show ?thesis
    by (simp add: step_def closeNote_def triggerChapter2Cinematic_def helper_defs Let_def)
next
  case (Frame f)
  then show ?thesis by (simp add: step_def cf_animate)
next
  case (Run k)
  then show ?thesis by (simp add: step_def cf_run_pending)
qed (simp_all add: step_def startGame_def resumeGame_def quitToMenu_def
       onLock_def onUnlock_def helper_defs)

text \<open>
  Claim C8, as amended.  An interact adds exactly one to \<open>collectiblesFound\<close> when the game
  runs unpaused with no note open, the ray hits an interactable target, and the target's
  branch runs to its end: every target except a sealed hatch (final terminal not read) and
  an already opened security or escape door.  A refused security or escape door, and an inner
  door or a valve that is already opened or turned, are counted.  In every other case the
  interact leaves the counter as it is, and so does every other event.
\<close>

theorem collectibles_counter:
  "collectiblesFound (step (KeyDown (KeyE hit)) s) =
     collectiblesFound s +
       (case hit of
          None \<Rightarrow> 0
        | Some obj \<Rightarrow>
            if \<not> playing s \<or> paused s \<or> noteOpen s \<or> \<not> interactable (objs s obj) then 0
            else if utype (objs s obj) = Hatch \<and> \<not> finalTerminalRead s then 0
            else if (utype (objs s obj) = Escape_door \<or> utype (objs s obj) = Locked_door) \<and>
                    opened (objs s obj) then 0
            else 1) \<and>
   ((\<forall>hit. e \<noteq> KeyDown (KeyE hit)) \<longrightarrow> collectiblesFound (step e s) = collectiblesFound s)"
proof
  show "collectiblesFound (step (KeyDown (KeyE hit)) s) =
     collectiblesFound s +
       (case hit of
          None \<Rightarrow> 0
        | Some obj \<Rightarrow>
            if \<not> playing s \<or> paused s \<or> noteOpen s \<or> \<not> interactable (objs s obj) then 0
            else if utype (objs s obj) = Hatch \<and> \<not> finalTerminalRead s then 0
            else if (utype (objs s obj) = Escape_door \<or> utype (objs s obj) = Locked_door) \<and>
                    opened (objs s obj) then 0
            else 1)"
    by (cases "playing s") (simp_all add: step_def onKeyDown_def cf_tryInteract split: option.splits)
  show "(\<forall>hit. e \<noteq> KeyDown (KeyE hit)) \<longrightarrow> collectiblesFound (step e s) = collectiblesFound s"
    using cf_step_other by blast
qed

theorem collectibles_counter_witness:
  "collectiblesFound (step (KeyDown (KeyE (Some 10))) demo) = collectiblesFound demo + 1 \<and>
   collectiblesFound (step (KeyDown (KeyE (Some 1))) demo) = collectiblesFound demo + 1 \<and>
   collectiblesFound (step (KeyDown (KeyE (Some 3))) demo) = collectiblesFound demo \<and>
   collectiblesFound (step (KeyDown (KeyE None)) demo) = collectiblesFound demo \<and>
   collectiblesFound (step (Frame demo_frame) demo) = collectiblesFound demo"
proof -
  note A = collectibles_counter [where s = demo and e = "Frame demo_frame"]
  have 1: "collectiblesFound (step (KeyDown (KeyE (Some 10))) demo) = collectiblesFound demo + 1"
    using A [where hit = "Some 10", THEN conjunct1]
    by (simp add: demo_full init_demo_fields demo_kinds)
  have 2: "collectiblesFound (step (KeyDown (KeyE (Some 1))) demo) = collectiblesFound demo + 1"
    using A [where hit = "Some 1", THEN conjunct1]
    by (simp add: demo_full init_demo_fields demo_kinds)
  have 3: "collectiblesFound (step (KeyDown (KeyE (Some 3))) demo) = collectiblesFound demo"
    using A [where hit = "Some 3", THEN conjunct1]
    by (simp add: demo_full init_demo_fields demo_kinds)
  have 4: "collectiblesFound (step (KeyDown (KeyE None)) demo) = collectiblesFound demo"
    using A [where hit = None, THEN conjunct1] by simp
  have 5: "collectiblesFound (step (Frame demo_frame) demo) = collectiblesFound demo"
    using A [where hit = None, THEN conjunct2] by simp
  from 1 2 3 4 5 show ?thesis by blast
qed

text \<open>
  The claim as stated fails: an interact on the security door without the keycard is
  refused (every interactable is unchanged, the hint and the tone are emitted) and the
  counter goes from 0 to 1; a second interact on a turned valve leaves \<open>valvesTurned\<close> at 1 and
  takes the counter to 2.
\<close>

theorem collectibles_counter_counterexample:
  "\<not> hasKeycard demo \<and>
   objs (tryInteract (Some 1) demo) = objs demo \<and>
   trace (tryInteract (Some 1) demo) =
     trace demo @ [Hint Hint_LockedNeedCard, Cue (PlayTone 150 0.15 0.1)] \<and>
   collectiblesFound demo = 0 \<and>
   collectiblesFound (tryInteract (Some 1) demo) = 1 \<and>
   valvesTurned (tryInteract (Some 5) (tryInteract (Some 5) demo)) = 1 \<and>
   collectiblesFound (tryInteract (Some 5) (tryInteract (Some 5) demo)) = 2"
  by (simp add: demo_full interact_eval init_demo_fields demo_kinds)


section \<open>The maintenance hatch\<close>

text \<open>
  Claim C10, as amended.  While the game is unpaused with no note open, an interact on the
  hatch moves the player to (-13, -2.3, -26) exactly when the hatch is interactable and the
  final terminal has been read.  When the hatch is interactable and the final terminal has
  not been read, the interact only shows the 'sealed' hint.  When the hatch is not
  interactable, the interact changes nothing: no hint is shown.  The position changes in
  the first case only.
\<close>

theorem hatch_interact:
  assumes "\<not> paused s" and "\<not> noteOpen s" and "utype (objs s h) = Hatch"
  shows
   "(interactable (objs s h) \<and> finalTerminalRead s \<longrightarrow>
       position (tryInteract (Some h) s) = V3 (-13) (-2.3) (-26) \<and>
       trace (tryInteract (Some h) s) = trace s @ [Hint Hint_Descend, Cue PlayDoorSlam]) \<and>
    (interactable (objs s h) \<and> \<not> finalTerminalRead s \<longrightarrow>
       tryInteract (Some h) s = s\<lparr>trace := trace s @ [Hint Hint_HatchSealed]\<rparr>) \<and>
    (\<not> interactable (objs s h) \<longrightarrow> tryInteract (Some h) s = s) \<and>
    (position (tryInteract (Some h) s) \<noteq> position s \<longrightarrow>
       interactable (objs s h) \<and> finalTerminalRead s)"
  using assms by (auto simp: tryInteract_def helper_defs V3_def)

lemma roof_frame:
  "step (Frame demo_frame) (demo\<lparr>position := V3 35 5.7 (-2)\<rparr>) =
     triggerChapter2Cinematic FromRooftopZone
       (demo\<lparr>position := V3 35 5.7 (-2), triggered := True\<rparr>)\<lparr>battery := 100 - 0.016 * 1.2\<rparr>"
  by (simp add: step_def animate_def demo_frame_def demo_full init_def demo_level_def
       movement_def direction_def normalizeXZ_def getHeadBob_def isMoving_def floorLevel_def
       clampToLevel_def clamp_def rooftopTrigger_def containsPoint_def
       setFromCenterAndSize_def num_ge_def V3_def batteryDrain_def updateSystems_def
       triggerChapter2Cinematic_def helper_defs Let_def)


lemma demo_roof_fields:
  "\<not> paused demo_roof" "\<not> noteOpen demo_roof" "utype (objs demo_roof 3) = Hatch"
  "interactable (objs demo_roof 3)" "\<not> finalTerminalRead demo_roof"
  "position demo_roof = V3 35 5.7 (-2)"
  "count_list (trace demo_roof) (Cinematic FromRooftopZone) = 1"
  "count_list (trace demo_roof) (Cinematic FromCloseNote) = 0"
proof -
  have "demo_roof = run [Clock 12000, Run 4, Clock 14000, Run 4]
      (step (Frame demo_frame) (demo\<lparr>position := V3 35 5.7 (-2)\<rparr>))"
    by (simp add: demo_roof_def)
  then have *: "demo_roof = run [Clock 12000, Run 4, Clock 14000, Run 4]
       (triggerChapter2Cinematic FromRooftopZone
       (demo\<lparr>position := V3 35 5.7 (-2), triggered := True\<rparr>)\<lparr>battery := 100 - 0.016 * 1.2\<rparr>)"
    by (simp only: roof_frame)
  show "\<not> paused demo_roof" "\<not> noteOpen demo_roof" "utype (objs demo_roof 3) = Hatch"
    "interactable (objs demo_roof 3)" "\<not> finalTerminalRead demo_roof"
    "position demo_roof = V3 35 5.7 (-2)"
    "count_list (trace demo_roof) (Cinematic FromRooftopZone) = 1"
    "count_list (trace demo_roof) (Cinematic FromCloseNote) = 0"
    unfolding *
    by (simp_all add: step_def run_pending_def run_task_def cinStep6_def cinStep7_def
         triggerChapter2Cinematic_def helper_defs demo_full init_def demo_level_def
         demo_objs_def mk_def blank_def)
qed

lemma demo_hatch:
  "\<not> paused demo" "\<not> noteOpen demo" "utype (objs demo 3) = Hatch" "\<not> interactable (objs demo 3)"
  by (simp_all add: demo_full init_demo_fields demo_kinds)

lemma demo_solved_hatch_pre:
  "\<not> paused (cinStep6 (demo\<lparr>finalTerminalRead := True\<rparr>))"
  "\<not> noteOpen (cinStep6 (demo\<lparr>finalTerminalRead := True\<rparr>))"
  "utype (objs (cinStep6 (demo\<lparr>finalTerminalRead := True\<rparr>)) 3) = Hatch"
  "interactable (objs (cinStep6 (demo\<lparr>finalTerminalRead := True\<rparr>)) 3)"
  "finalTerminalRead (cinStep6 (demo\<lparr>finalTerminalRead := True\<rparr>))"
  by (simp_all add: cinStep6_def helper_defs demo_full init_def demo_level_def
         demo_objs_def mk_def blank_def)

theorem hatch_interact_witness:
  "position (tryInteract (Some 3) (cinStep6 (demo\<lparr>finalTerminalRead := True\<rparr>))) =
     V3 (-13) (-2.3) (-26) \<and>
   interactable (objs demo_roof 3) \<and> \<not> finalTerminalRead demo_roof \<and>
   tryInteract (Some 3) demo_roof = demo_roof\<lparr>trace := trace demo_roof @ [Hint Hint_HatchSealed]\<rparr> \<and>
   position (tryInteract (Some 3) demo_roof) = V3 35 5.7 (-2) \<and>
   tryInteract (Some 3) demo = demo"
proof -
  note A = hatch_interact [OF demo_solved_hatch_pre(1-3)]
  note B = hatch_interact [OF demo_roof_fields(1-3)]
  note C = hatch_interact [OF demo_hatch(1-3)]
  have 1: "position (tryInteract (Some 3) (cinStep6 (demo\<lparr>finalTerminalRead := True\<rparr>))) =
     V3 (-13) (-2.3) (-26)"
    using A [THEN conjunct1] demo_solved_hatch_pre(4,5) by blast
  have 2: "tryInteract (Some 3) demo_roof = demo_roof\<lparr>trace := trace demo_roof @ [Hint Hint_HatchSealed]\<rparr>"
    using B [THEN conjunct2, THEN conjunct1] demo_roof_fields(4,5) by blast
  have 3: "position (tryInteract (Some 3) demo_roof) = V3 35 5.7 (-2)"
    using B [THEN conjunct2, THEN conjunct2, THEN conjunct2] demo_roof_fields(5,6) by auto
  have 4: "tryInteract (Some 3) demo = demo"
    using C [THEN conjunct2, THEN conjunct2, THEN conjunct1] demo_hatch(4) by blast
  from 1 2 3 4 demo_roof_fields(4,5) show ?thesis by blast
qed

text \<open>
  The claim as stated fails: in the initial state of the level the hatch is not
  interactable and the final terminal is unread; an interact on it is dropped by the
  dispatcher and no 'sealed' hint is shown.
\<close>

theorem hatch_interact_counterexample:
  "\<not> interactable (objs demo 3) \<and> \<not> finalTerminalRead demo \<and>
   tryInteract (Some 3) demo = demo \<and>
   Hint Hint_HatchSealed \<notin> set (trace (tryInteract (Some 3) demo))"
  by (simp add: demo_full tryInteract_def init_def demo_level_def demo_objs_def mk_def blank_def)


section \<open>The hatch step of the cinematic\<close>

lemma sealed_tryInteract: "sealed_until T h s \<Longrightarrow> sealed_until T h (tryInteract hit s)"
  by (auto simp: sealed_until_def tryInteract_def helper_defs turnValve_def openDoor_def
       openSecurityDoor_def Let_def split: option.splits kind.splits)

lemma sealed_cinematic:
  "sealed_until T h s \<Longrightarrow> sealed_until T h (triggerChapter2Cinematic c s)"
  by (auto simp: sealed_until_def triggerChapter2Cinematic_def helper_defs)

lemma sealed_run_task:
  assumes "sealed_until T h s" and "k = CinStep6 \<longrightarrow> T \<le> now s"
  shows "sealed_until T h (run_task k s)"
  using assms
  by (cases k)
     (auto simp: sealed_until_def run_task_def valveExitTimeout_def escapeTeleport_def
        secDoorTimeout_def animDoor_def animSec_def animExit_def escapeTimeout_def
        cinStep2_def cinStep3_def cinStep4_def cinStep5_def cinStep6_def cinStep7_def
        helper_defs Let_def split: option.splits)

lemma sealed_run_pending:
  assumes "sealed_until T h s"
  shows "sealed_until T h (run_pending k s)"
proof (cases "k < length (pending s) \<and> fst (pending s ! k) \<le> now s")
  case False
  with assms show ?thesis by (auto simp: run_pending_def)
next
  case True
  let ?s' = "s\<lparr>pending := take k (pending s) @ drop (Suc k) (pending s)\<rparr>"
  have sub: "set (take k (pending s) @ drop (Suc k) (pending s)) \<subseteq> set (pending s)"
    using set_take_subset set_drop_subset by fastforce
  have a: "sealed_until T h ?s'"
    using assms sub by (auto simp: sealed_until_def)
  have "pending s ! k \<in> set (pending s)" using True by simp
  then have b: "snd (pending s ! k) = CinStep6 \<longrightarrow> T \<le> now ?s'"
    using assms True by (auto simp: sealed_until_def)
  show ?thesis using True sealed_run_task [OF a b] by (simp add: run_pending_def)
qed


lemma sealed_animate_parts [simp]:
  "sealed_until T h (movement d c s) = sealed_until T h s"
  "sealed_until T h (snd (getHeadBob d s)) = sealed_until T h s"
  "sealed_until T h (batteryDrain d s) = sealed_until T h s"
  "sealed_until T h (updateSystems d r s) = sealed_until T h s"
  "sealed_until T h (s\<lparr>position := p\<rparr>) = sealed_until T h s"
  by (simp_all add: sealed_until_def movement_def getHeadBob_def batteryDrain_def
       updateSystems_def Let_def split: option.splits prod.splits)

lemma sealed_rooftopTrigger: "sealed_until T h s \<Longrightarrow> sealed_until T h (rooftopTrigger fl s)"
proof -
  assume a: "sealed_until T h s"
  then have "sealed_until T h (s\<lparr>triggered := True\<rparr>)" by (simp add: sealed_until_def)
  then show ?thesis using a by (simp add: rooftopTrigger_def sealed_cinematic)
qed

lemma sealed_animate: "sealed_until T h s \<Longrightarrow> sealed_until T h (animate f s)"
  by (simp add: animate_def Let_def split_beta sealed_rooftopTrigger)

lemma sealed_step: "sealed_until T h s \<Longrightarrow> sealed_until T h (step e s)"
proof (cases e)
  case (KeyDown k)
  assume "sealed_until T h s"
  with KeyDown show ?thesis
    by (cases k) (simp_all add: step_def onKeyDown_def sealed_tryInteract,
                  simp_all add: sealed_until_def toggleFlashlight_def helper_defs)
next
  case (KeyUp k)
  assume "sealed_until T h s"
  with KeyUp show ?thesis by (cases k) (simp_all add: step_def onKeyUp_def sealed_until_def)
next
  case BtnCloseNote
  assume a: "sealed_until T h s"
  then have b: "sealed_until T h (s\<lparr>noteOpen := False\<rparr>)"
    and c: "sealed_until T h (s\<lparr>noteOpen := False, pendingCinematic := False\<rparr>)"
    by (simp_all add: sealed_until_def)
  with BtnCloseNote show ?thesis
    by (simp add: step_def closeNote_def Let_def sealed_cinematic)
next
  case (Frame f)
  assume "sealed_until T h s"
  with Frame show ?thesis by (simp add: step_def sealed_animate)
next
  case (Run k)
  assume "sealed_until T h s"
  with Run show ?thesis by (simp add: step_def sealed_run_pending)
next
  case (Clock t)
  assume "sealed_until T h s"
  with Clock show ?thesis by (auto simp: step_def sealed_until_def)
qed (simp_all add: step_def sealed_until_def startGame_def resumeGame_def quitToMenu_def
       onLock_def onUnlock_def helper_defs)

lemma sealed_run: "sealed_until T h s \<Longrightarrow> sealed_until T h (run es s)"
  by (induction es arbitrary: s) (simp_all add: sealed_step)

lemma sealed_start:
  assumes "utype (objs s h) = Hatch" and "\<not> interactable (objs s h)"
    and "\<forall>p \<in> set (pending s). snd p \<noteq> CinStep6"
  shows "sealed_until (now s + 12000) h (triggerChapter2Cinematic c s)"
  using assms by (auto simp: sealed_until_def triggerChapter2Cinematic_def helper_defs)

lemma on_time_run:
  assumes "hatchTrigger s = Some h"
  shows "interactable (objs (run (on_time_to_step6 (length (pending s)) (now s))
                               (triggerChapter2Cinematic c s)) h) \<and>
         utype (objs (run (on_time_to_step6 (length (pending s)) (now s))
                               (triggerChapter2Cinematic c s)) h) = utype (objs s h) \<and>
         now (run (on_time_to_step6 (length (pending s)) (now s))
                               (triggerChapter2Cinematic c s)) = now s + 12000"
  using assms
  by (simp add: on_time_to_step6_def triggerChapter2Cinematic_def helper_defs step_def
       run_pending_def run_task_def cinStep2_def cinStep3_def cinStep4_def cinStep5_def
       cinStep6_def nth_append max_def)


lemma interactable_forever:
  assumes "interactable (objs s h)" and "utype (objs s h) = Hatch"
  shows "interactable (objs (run es s) h)"
  using mono_run [of s es] assms by (simp add: mono_flags_def)

text \<open>
  Claim C7, as amended.  Let the cinematic start in a state whose hatch trigger is a hatch
  that is not interactable, with no hatch step of an earlier cinematic pending.  Then,
  whatever events follow, the hatch is not interactable while the clock is before 12 s after
  the start; and once the timeouts have run on time up to the hatch step at 12 s, the hatch
  is interactable and stays so whatever events follow: at 12.1 s and still at 13.9 s.
\<close>

theorem hatch_unlock_time:
  assumes "hatchTrigger s = Some h" and "utype (objs s h) = Hatch"
    and "\<not> interactable (objs s h)" and "\<forall>p \<in> set (pending s). snd p \<noteq> CinStep6"
  shows "(now (run es (triggerChapter2Cinematic c s)) < now s + 12000 \<longrightarrow>
            \<not> interactable (objs (run es (triggerChapter2Cinematic c s)) h)) \<and>
         interactable
           (objs (run es (run (on_time_to_step6 (length (pending s)) (now s))
                           (triggerChapter2Cinematic c s))) h)"
proof
  have "sealed_until (now s + 12000) h (run es (triggerChapter2Cinematic c s))"
    by (intro sealed_run sealed_start assms)
  then show "now (run es (triggerChapter2Cinematic c s)) < now s + 12000 \<longrightarrow>
            \<not> interactable (objs (run es (triggerChapter2Cinematic c s)) h)"
    by (simp add: sealed_until_def)
  show "interactable
           (objs (run es (run (on_time_to_step6 (length (pending s)) (now s))
                           (triggerChapter2Cinematic c s))) h)"
    using on_time_run [OF assms(1), of c] assms(2)
    by (intro interactable_forever
          [of "run (on_time_to_step6 (length (pending s)) (now s)) (triggerChapter2Cinematic c s)"])
       simp_all
qed

lemma demo_hatch_pre:
  "hatchTrigger demo = Some 3" "utype (objs demo 3) = Hatch" "\<not> interactable (objs demo 3)"
  "\<forall>p \<in> set (pending demo). snd p \<noteq> CinStep6" "now demo = 0" "length (pending demo) = 0"
  by (simp_all add: demo_full init_def demo_level_def demo_objs_def mk_def blank_def)

lemma demo_cinematic_now:
  "now (triggerChapter2Cinematic c demo) = 0"
  "now (run (on_time_to_step6 0 0) (triggerChapter2Cinematic c demo)) = 12000"
  using on_time_run [OF demo_hatch_pre(1), of c]
  by (simp_all add: demo_hatch_pre triggerChapter2Cinematic_def helper_defs)

theorem hatch_unlock_time_witness:
  "now (run [Clock 11900] (triggerChapter2Cinematic FromCloseNote demo)) = 11900 \<and>
   \<not> interactable (objs (run [Clock 11900] (triggerChapter2Cinematic FromCloseNote demo)) 3) \<and>
   now (run [Clock 12100]
         (run (on_time_to_step6 0 0) (triggerChapter2Cinematic FromCloseNote demo))) = 12100 \<and>
   interactable
     (objs (run [Clock 12100]
             (run (on_time_to_step6 0 0) (triggerChapter2Cinematic FromCloseNote demo))) 3) \<and>
   interactable
     (objs (run [Clock 13900]
             (run (on_time_to_step6 0 0) (triggerChapter2Cinematic FromCloseNote demo))) 3)"
proof -
  note A = hatch_unlock_time [OF demo_hatch_pre(1-4), where c = FromCloseNote]
  have n: "now (run [Clock 11900] (triggerChapter2Cinematic FromCloseNote demo)) = 11900"
    by (simp add: step_def demo_cinematic_now)
  have 1: "\<not> interactable (objs (run [Clock 11900] (triggerChapter2Cinematic FromCloseNote demo)) 3)"
    using A [where es = "[Clock 11900]", THEN conjunct1] n by (simp add: demo_hatch_pre)
  have 2: "now (run [Clock 12100]
         (run (on_time_to_step6 0 0) (triggerChapter2Cinematic FromCloseNote demo))) = 12100"
    by (simp add: step_def demo_cinematic_now)
  have 3: "interactable
     (objs (run [Clock 12100]
             (run (on_time_to_step6 0 0) (triggerChapter2Cinematic FromCloseNote demo))) 3)"
    using A [where es = "[Clock 12100]", THEN conjunct2] by (simp add: demo_hatch_pre)
  have 4: "interactable
     (objs (run [Clock 13900]
             (run (on_time_to_step6 0 0) (triggerChapter2Cinematic FromCloseNote demo))) 3)"
    using A [where es = "[Clock 13900]", THEN conjunct2] by (simp add: demo_hatch_pre)
  from n 1 2 3 4 show ?thesis by blast
qed

text \<open>
  The claim as stated fails: with the cinematic started at time 0 and its timeouts run on
  time, the hatch is interactable at 13.9 s.
\<close>

theorem hatch_unlock_time_counterexample:
  "now demo = 0 \<and>
   now (run (on_time_to_step6 0 0 @ [Clock 13900])
          (triggerChapter2Cinematic FromCloseNote demo)) = 13900 \<and>
   interactable
     (objs (run (on_time_to_step6 0 0 @ [Clock 13900])
             (triggerChapter2Cinematic FromCloseNote demo)) 3)"
proof -
  have i: "interactable
     (objs (run (on_time_to_step6 0 0) (triggerChapter2Cinematic FromCloseNote demo)) 3)"
    using on_time_run [OF demo_hatch_pre(1), of FromCloseNote] by (simp add: demo_hatch_pre)
  show ?thesis
    using i by (simp add: run_append step_def demo_cinematic_now demo_hatch_pre)
qed


section \<open>Chapter 1 never ends\<close>

lemma ch_tryInteract:
  "chapter_no (tryInteract hit s) = chapter_no s \<and>
   entitySystem (tryInteract hit s) = entitySystem s \<and>
   horrorEvents (tryInteract hit s) = horrorEvents s"
  by (simp add: tryInteract_def helper_defs turnValve_def openDoor_def
       openSecurityDoor_def Let_def split: option.splits kind.splits)

lemma ch_run_task:
  "chapter_no (run_task k s) = chapter_no s \<and>
   entitySystem (run_task k s) = entitySystem s \<and>
   horrorEvents (run_task k s) = horrorEvents s"
  by (cases k)
     (simp_all add: run_task_def valveExitTimeout_def escapeTeleport_def
        secDoorTimeout_def animDoor_def animSec_def animExit_def escapeTimeout_def
        cinStep2_def cinStep3_def cinStep4_def cinStep5_def cinStep6_def cinStep7_def
        helper_defs Let_def split: option.splits)

lemma ch_run_pending:
  "chapter_no (run_pending k s) = chapter_no s \<and>
   entitySystem (run_pending k s) = entitySystem s \<and>
   horrorEvents (run_pending k s) = horrorEvents s"
  by (simp add: run_pending_def ch_run_task)

lemma ch_animate_parts [simp]:
  "chapter_no (movement d c s) = chapter_no s"
  "chapter_no (snd (getHeadBob d s)) = chapter_no s"
  "chapter_no (rooftopTrigger fl s) = chapter_no s"
  "chapter_no (batteryDrain d s) = chapter_no s"
  "entitySystem (movement d c s) = entitySystem s"
  "entitySystem (snd (getHeadBob d s)) = entitySystem s"
  "entitySystem (rooftopTrigger fl s) = entitySystem s"
  "entitySystem (batteryDrain d s) = entitySystem s"
  "horrorEvents (movement d c s) = horrorEvents s"
  "horrorEvents (snd (getHeadBob d s)) = horrorEvents s"
  "horrorEvents (rooftopTrigger fl s) = horrorEvents s"
  "horrorEvents (batteryDrain d s) = horrorEvents s"
  by (simp_all add: movement_def getHeadBob_def rooftopTrigger_def batteryDrain_def
       triggerChapter2Cinematic_def helper_defs Let_def)

lemma updateSystems_gated:
  "chapter_no s = 1 \<Longrightarrow> updateSystems d r s = s"
  by (simp add: updateSystems_def split: option.splits)

lemma ch_animate:
  assumes "chapter_no s = 1"
  shows "chapter_no (animate f s) = 1 \<and> entitySystem (animate f s) = entitySystem s \<and>
         horrorEvents (animate f s) = horrorEvents s"
  using assms by (simp add: animate_def Let_def split_beta updateSystems_gated)

lemma ch_step:
  assumes "chapter_no s = 1"
  shows "chapter_no (step e s) = 1 \<and> entitySystem (step e s) = entitySystem s \<and>
         horrorEvents (step e s) = horrorEvents s"
proof (cases e)
  case (KeyDown k)
  with assms show ?thesis
    by (cases k) (simp_all add: step_def onKeyDown_def ch_tryInteract toggleFlashlight_def
                    helper_defs)
next
  case (KeyUp k)
  with assms show ?thesis by (cases k) (simp_all add: step_def onKeyUp_def)
next
  case BtnCloseNote
  with assms show ?thesis
    by (simp add: step_def closeNote_def triggerChapter2Cinematic_def helper_defs Let_def)
next
  case (Frame f)
  with assms show ?thesis by (simp add: step_def ch_animate)
next
  case (Run k)
  with assms show ?thesis by (simp add: step_def ch_run_pending)
qed (use assms in \<open>simp_all add: step_def startGame_def resumeGame_def quitToMenu_def
       onLock_def onUnlock_def helper_defs\<close>)

lemma ch_run:
  assumes "chapter_no s = 1"
  shows "chapter_no (run es s) = 1 \<and> entitySystem (run es s) = entitySystem s \<and>
         horrorEvents (run es s) = horrorEvents s"
  using assms
proof (induction es arbitrary: s)
  case Nil
  then show ?case by simp
next
  case (Cons e es)
  from ch_step [OF Cons.prems, of e] Cons.IH [of "step e s"] show ?case by simp
qed

text \<open>
  Claim C9.  Initialisation sets the chapter to 1 and the entity system to null.  After any
  sequence of events from there, the chapter is still 1, the entity system is still null, the
  \<open>HorrorEvents\<close> instance is as its constructor left it (no zone triggered, the scare timer
  untouched), and the frame's gated update of the two systems changes nothing.
\<close>

theorem horror_systems_never_run:
  "chapter_no (init l) = 1 \<and> entitySystem (init l) = None \<and>
   chapter_no (run es (init l)) = 1 \<and>
   entitySystem (run es (init l)) = None \<and>
   horrorEvents (run es (init l)) = horrorEvents (init l) \<and>
   updateSystems d r (run es (init l)) = run es (init l)"
proof -
  have i: "chapter_no (init l) = 1" "entitySystem (init l) = None" by (simp_all add: init_def)
  from ch_run [OF i(1), of es] i show ?thesis by (simp add: updateSystems_gated)
qed

theorem horror_systems_never_run_witness:
  "chapter_no (run [BtnPlay, Lock, KeyDown KeyW, Frame demo_frame, pressE 4, BtnCloseNote,
                    Clock 14000, Run 5, Frame demo_frame] (init demo_level)) = 1 \<and>
   entitySystem (run [BtnPlay, Lock, KeyDown KeyW, Frame demo_frame, pressE 4, BtnCloseNote,
                    Clock 14000, Run 5, Frame demo_frame] (init demo_level)) = None \<and>
   h_triggered (horrorEvents (run [BtnPlay, Lock, KeyDown KeyW, Frame demo_frame, pressE 4,
                    BtnCloseNote, Clock 14000, Run 5, Frame demo_frame] (init demo_level))) = {} \<and>
   scareTimer (horrorEvents (run [BtnPlay, Lock, KeyDown KeyW, Frame demo_frame, pressE 4,
                    BtnCloseNote, Clock 14000, Run 5, Frame demo_frame] (init demo_level))) = 0"
  using horror_systems_never_run
          [where l = demo_level and d = "0.016" and r = "f_rnd demo_frame"
             and es = "[BtnPlay, Lock, KeyDown KeyW, Frame demo_frame, pressE 4, BtnCloseNote,
                    Clock 14000, Run 5, Frame demo_frame]"]
  by (simp add: init_def demo_level_def new_horror_def)


section \<open>Zone triggers\<close>

lemma triggerEvent_triggered [simp]:
  "h_triggered (fst (triggerEvent e (h, tr))) = h_triggered h"
  by (cases "ev_type e") simp_all

lemma triggerEvent_count [simp]:
  "count_list (snd (triggerEvent e (h, tr))) (TriggerEvent i) = count_list tr (TriggerEvent i)"
  "count_list (snd (triggerEvent e (h, tr))) (Cinematic c) = count_list tr (Cinematic c)"
  by (cases "ev_type e"; simp)+

declare triggerEvent.simps [simp del]

lemma zone_loop_skip:
  "ev_id e \<in> h_triggered h \<or> \<not> distanceTo p (ev_zone e) < ev_radius e \<Longrightarrow>
     zone_loop (e # es) p (h, tr) = zone_loop es p (h, tr)"
  by auto

lemma zone_loop_fire:
  "ev_id e \<notin> h_triggered h \<Longrightarrow> distanceTo p (ev_zone e) < ev_radius e \<Longrightarrow>
     zone_loop (e # es) p (h, tr) =
       zone_loop es p (triggerEvent e (h\<lparr>h_triggered := insert (ev_id e) (h_triggered h)\<rparr>,
                                       tr @ [TriggerEvent (ev_id e)]))"
  by simp

declare zone_loop.simps(2) [simp del]

lemma zone_loop_inv:
  "h_triggered (fst hs) \<subseteq> h_triggered (fst (zone_loop es p hs)) \<and>
   count_list (snd (zone_loop es p hs)) (TriggerEvent i) =
     count_list (snd hs) (TriggerEvent i) +
       (if i \<in> h_triggered (fst (zone_loop es p hs)) \<and> i \<notin> h_triggered (fst hs) then 1 else 0) \<and>
   count_list (snd (zone_loop es p hs)) (Cinematic c) = count_list (snd hs) (Cinematic c)"
proof (induction es arbitrary: hs)
  case Nil
  show ?case by simp
next
  case (Cons e es)
  obtain h tr where hs: "hs = (h, tr)" by (cases hs)
  show ?case
  proof (cases "ev_id e \<in> h_triggered h \<or> \<not> distanceTo p (ev_zone e) < ev_radius e")
    case True
    show ?thesis
      unfolding hs zone_loop_skip [OF True] using Cons.IH [of "(h, tr)"] by simp
  next
    case False
    then have out: "ev_id e \<notin> h_triggered h" and ins: "distanceTo p (ev_zone e) < ev_radius e"
      by simp_all
    let ?hs1 = "triggerEvent e (h\<lparr>h_triggered := insert (ev_id e) (h_triggered h)\<rparr>,
                              tr @ [TriggerEvent (ev_id e)])"
    have t1: "h_triggered (fst ?hs1) = insert (ev_id e) (h_triggered h)" by simp
    have c1: "count_list (snd ?hs1) (TriggerEvent i) =
                count_list tr (TriggerEvent i) + (if i = ev_id e then 1 else 0)"
      by simp
    have c2: "count_list (snd ?hs1) (Cinematic c) = count_list tr (Cinematic c)" by simp
    note ih = Cons.IH [of ?hs1]
    have sub: "insert (ev_id e) (h_triggered h) \<subseteq> h_triggered (fst (zone_loop es p ?hs1))"
      using ih t1 by simp
    have cnt: "count_list (snd (zone_loop es p ?hs1)) (TriggerEvent i) =
       count_list tr (TriggerEvent i) + (if i = ev_id e then 1 else 0) +
       (if i \<in> h_triggered (fst (zone_loop es p ?hs1)) \<and> i \<notin> insert (ev_id e) (h_triggered h)
        then 1 else 0)"
      using ih unfolding t1 c1 by simp
    have cin: "count_list (snd (zone_loop es p ?hs1)) (Cinematic c) = count_list tr (Cinematic c)"
      using ih unfolding c2 by simp
    show ?thesis
      unfolding hs zone_loop_fire [OF out ins] using sub cnt cin out by auto
  qed
qed

lemma randomScare_count [simp]:
  "count_list (randomScare x) (TriggerEvent i) = 0"
  "count_list (randomScare x) (Cinematic c) = 0"
  by (simp_all add: randomScare_def)

lemma horror_update_fst:
  "h_triggered (fst (horror_update d p r hs)) = h_triggered (fst (zone_loop events p hs))"
  by (simp add: horror_update_def Let_def split_beta)

lemma horror_update_snd:
  "count_list (snd (horror_update d p r hs)) (TriggerEvent i) =
     count_list (snd (zone_loop events p hs)) (TriggerEvent i)"
  "count_list (snd (horror_update d p r hs)) (Cinematic c) =
     count_list (snd (zone_loop events p hs)) (Cinematic c)"
  by (simp_all add: horror_update_def Let_def split_beta)

lemma horror_update_inv:
  "h_triggered (fst hs) \<subseteq> h_triggered (fst (horror_update d p r hs)) \<and>
   count_list (snd (horror_update d p r hs)) (TriggerEvent i) =
     count_list (snd hs) (TriggerEvent i) +
       (if i \<in> h_triggered (fst (horror_update d p r hs)) \<and> i \<notin> h_triggered (fst hs)
        then 1 else 0) \<and>
   count_list (snd (horror_update d p r hs)) (Cinematic c) = count_list (snd hs) (Cinematic c)"
  unfolding horror_update_fst horror_update_snd by (rule zone_loop_inv)



lemma zone_once_refl [simp]: "zone_once s s"
  by (simp add: zone_once_def)



lemma entity_wake_count [simp]:
  "count_list (snd (entity_wake es)) (Cinematic c) = count_list (snd es) (Cinematic c)"
  by (simp add: entity_wake_def)

lemma entity_pulse_count [simp]:
  "count_list (snd (entity_pulse d pd r es)) (Cinematic c) = count_list (snd es) (Cinematic c)"
  by (simp add: entity_pulse_def)

lemma entity_cycle_count [simp]:
  "count_list (snd (entity_cycle d p r es)) (Cinematic c) = count_list (snd es) (Cinematic c)"
  unfolding entity_cycle_def Let_def
  by (simp only: if_distrib [of snd] if_distrib [of "\<lambda>x. count_list x (Cinematic c)"] snd_conv
        count_list_append count_list.simps effect.distinct if_False add_0_right if_cancel)


lemma entity_steer_count [simp]:
  "count_list (snd (entity_steer d p r dir es)) (Cinematic c) = count_list (snd es) (Cinematic c)"
  unfolding entity_steer_def Let_def
  by (simp only: if_distrib [of snd] if_distrib [of "\<lambda>x. count_list x (Cinematic c)"] snd_conv
        count_list_append count_list.simps effect.distinct if_False add_0_right if_cancel)

lemma entity_move_count [simp]:
  "count_list (snd (entity_move d p r es)) (Cinematic c) = count_list (snd es) (Cinematic c)"
  unfolding entity_move_def Let_def
  by (simp only: entity_pulse_count entity_steer_count snd_conv)

lemma entity_update_count:
  "count_list (snd (entity_update d p r es)) (Cinematic c) = count_list (snd es) (Cinematic c)"
  unfolding entity_update_def Let_def
  by (simp only: if_distrib [of snd] if_distrib [of "\<lambda>x. count_list x (Cinematic c)"] snd_conv
        entity_move_count entity_cycle_count entity_wake_count if_cancel)




lemma cin_helpers [simp]:
  "count_list (trace (showHint h s)) (Cinematic c) = count_list (trace s) (Cinematic c)"
  "count_list (trace (play q s)) (Cinematic c) = count_list (trace s) (Cinematic c)"
  "count_list (trace (setTimeout k ms s)) (Cinematic c) = count_list (trace s) (Cinematic c)"
  "count_list (trace (requestAnimationFrame k s)) (Cinematic c) = count_list (trace s) (Cinematic c)"
  "count_list (trace (updObj obj f s)) (Cinematic c) = count_list (trace s) (Cinematic c)"
  "count_list (trace (found s)) (Cinematic c) = count_list (trace s) (Cinematic c)"
  "count_list (trace (openNote s)) (Cinematic c) = count_list (trace s) (Cinematic c)"
  "count_list (trace (pickUp obj s)) (Cinematic c) = count_list (trace s) (Cinematic c)"
  "count_list (trace (throwTypeError s)) (Cinematic c) = count_list (trace s) (Cinematic c)"
  by (simp_all add: helper_defs)

lemma cin_turnValve [simp]:
  "count_list (trace (turnValve obj s)) (Cinematic c) = count_list (trace s) (Cinematic c)"
  by (simp add: turnValve_def Let_def)

lemma cin_openDoor [simp]:
  "count_list (trace (openDoor obj s)) (Cinematic c) = count_list (trace s) (Cinematic c)"
  "count_list (trace (openSecurityDoor obj s)) (Cinematic c) = count_list (trace s) (Cinematic c)"
  by (simp_all add: openDoor_def openSecurityDoor_def Let_def)





lemma cin_emit [simp]:
  "e \<noteq> Cinematic c \<Longrightarrow> count_list (trace (emit e s)) (Cinematic c) = count_list (trace s) (Cinematic c)"
  by (simp add: emit_def)




lemma horror_update_cin [simp]:
  "count_list (snd (horror_update d p r hs)) (Cinematic c) = count_list (snd hs) (Cinematic c)"
  using horror_update_inv [of hs d p r undefined c] by simp

lemma triggered_updateSystems [simp]: "triggered (updateSystems d r s) = triggered s"
  by (simp add: updateSystems_def Let_def split_beta split: option.splits)

lemma cin_updateSystems [simp]:
  "count_list (trace (updateSystems d r s)) (Cinematic c) = count_list (trace s) (Cinematic c)"
  by (simp add: updateSystems_def Let_def split_beta entity_update_count split: option.splits)














end
